theory Spec2Isabelle
  imports Complex_Main
begin

section \<open>JavaScript numbers\<close>

text \<open>
  A JavaScript number is an IEEE 754 binary64 value. The finite ones are rationals; the
  model keeps them as \<^typ>\<open>rat\<close> and rounds the exact result of every arithmetic
  operation to the nearest binary64 value, ties to even, as the hardware does. The two
  zeros are identified: the program only adds, multiplies, divides by non-zero constants,
  rounds, clamps and compares, where \<open>-0\<close> and \<open>+0\<close> behave alike.
\<close>

datatype jsnum = Finite rat | NaN | PosInfinity | NegInfinity

definition pow2 :: "int \<Rightarrow> rat" where
  "pow2 e = (if 0 \<le> e then 2 ^ nat e else 1 / 2 ^ nat (- e))"

text \<open>
  The binade of a positive rational \<open>a\<close>: the exponent \<open>e\<close> with
  \<open>2 ^ e \<le> a < 2 ^ (e + 1)\<close>, not below \<open>-1022\<close> (the subnormal
  range shares the exponent of the smallest normal numbers) and not searched beyond
  \<open>1024\<close> (everything there overflows).
\<close>

function binade_down :: "rat \<Rightarrow> int \<Rightarrow> int" where
  "binade_down a e = (if a < 1 \<and> - 1022 < e then binade_down (2 * a) (e - 1) else e)"
  by pat_completeness auto
termination
  by (relation "measure (\<lambda>(a, e). nat (e + 1022))") auto

function binade_up :: "rat \<Rightarrow> int \<Rightarrow> int" where
  "binade_up a e = (if 2 \<le> a \<and> e < 1024 then binade_up (a / 2) (e + 1) else e)"
  by pat_completeness auto
termination
  by (relation "measure (\<lambda>(a, e). nat (1024 - e))") auto

declare binade_down.simps [simp del] binade_up.simps [simp del]

definition binade :: "rat \<Rightarrow> int" where
  "binade a = (if a < 1 then binade_down a 0 else binade_up a 0)"

definition round_half_even :: "rat \<Rightarrow> int" where
  "round_half_even x =
     (if x - of_int \<lfloor>x\<rfloor> < 1 / 2 then \<lfloor>x\<rfloor>
      else if 1 / 2 < x - of_int \<lfloor>x\<rfloor> then \<lfloor>x\<rfloor> + 1
      else if even \<lfloor>x\<rfloor> then \<lfloor>x\<rfloor> else \<lfloor>x\<rfloor> + 1)"

text \<open>\<open>to_ulp a u\<close> is the multiple of \<open>u\<close> nearest to \<open>a\<close>.\<close>

definition to_ulp :: "rat \<Rightarrow> rat \<Rightarrow> rat" where
  "to_ulp a u = of_int (round_half_even (a / u)) * u"

definition fl_pos :: "rat \<Rightarrow> rat" where
  "fl_pos a = to_ulp a (pow2 (binade a - 52))"

text \<open>Rounding an exact result to binary64; magnitudes from \<open>2 ^ 1024\<close> on overflow.\<close>

definition fl :: "rat \<Rightarrow> jsnum" where
  "fl q =
     (if q = 0 then Finite 0
      else if 0 < q then (if pow2 1024 \<le> fl_pos q then PosInfinity else Finite (fl_pos q))
      else (if pow2 1024 \<le> fl_pos (- q) then NegInfinity else Finite (- fl_pos (- q))))"

definition isFinite :: "jsnum \<Rightarrow> bool" where
  "isFinite x = (case x of Finite _ \<Rightarrow> True | _ \<Rightarrow> False)"

text \<open>\<open>x < y\<close> and \<open>x >= y\<close> of JavaScript: every comparison with \<open>NaN\<close> is false.\<close>

fun js_lt :: "jsnum \<Rightarrow> jsnum \<Rightarrow> bool" where
  "js_lt NaN _ = False"
| "js_lt _ NaN = False"
| "js_lt (Finite a) (Finite b) = (a < b)"
| "js_lt (Finite _) PosInfinity = True"
| "js_lt (Finite _) NegInfinity = False"
| "js_lt PosInfinity _ = False"
| "js_lt NegInfinity NegInfinity = False"
| "js_lt NegInfinity _ = True"

definition js_ge :: "jsnum \<Rightarrow> jsnum \<Rightarrow> bool" where
  "js_ge x y = (x \<noteq> NaN \<and> y \<noteq> NaN \<and> \<not> js_lt x y)"

definition js_gt :: "jsnum \<Rightarrow> jsnum \<Rightarrow> bool" where
  "js_gt x y = js_lt y x"

definition js_le :: "jsnum \<Rightarrow> jsnum \<Rightarrow> bool" where
  "js_le x y = js_ge y x"

definition Math_max :: "jsnum \<Rightarrow> jsnum \<Rightarrow> jsnum" where
  "Math_max x y = (if x = NaN \<or> y = NaN then NaN else if js_lt x y then y else x)"

definition Math_min :: "jsnum \<Rightarrow> jsnum \<Rightarrow> jsnum" where
  "Math_min x y = (if x = NaN \<or> y = NaN then NaN else if js_lt y x then y else x)"

text \<open>\<open>Math.round\<close>: the nearest integer, a tie going up.\<close>

definition Math_round :: "jsnum \<Rightarrow> jsnum" where
  "Math_round x = (case x of Finite q \<Rightarrow> Finite (of_int \<lfloor>q + 1 / 2\<rfloor>) | _ \<Rightarrow> x)"

fun js_add :: "jsnum \<Rightarrow> jsnum \<Rightarrow> jsnum" where
  "js_add NaN _ = NaN"
| "js_add _ NaN = NaN"
| "js_add (Finite a) (Finite b) = fl (a + b)"
| "js_add PosInfinity NegInfinity = NaN"
| "js_add NegInfinity PosInfinity = NaN"
| "js_add PosInfinity _ = PosInfinity"
| "js_add NegInfinity _ = NegInfinity"
| "js_add (Finite _) y = y"

text \<open>The sign of a number other than \<open>NaN\<close>: \<open>-1\<close>, \<open>0\<close> or \<open>1\<close>.\<close>

definition js_sign :: "jsnum \<Rightarrow> int" where
  "js_sign x =
     (case x of Finite q \<Rightarrow> (if q < 0 then - 1 else if q = 0 then 0 else 1)
      | PosInfinity \<Rightarrow> 1 | NegInfinity \<Rightarrow> - 1 | NaN \<Rightarrow> 0)"

definition signed_infinity :: "int \<Rightarrow> jsnum" where
  "signed_infinity s = (if s = 0 then NaN else if s < 0 then NegInfinity else PosInfinity)"

definition js_mul :: "jsnum \<Rightarrow> jsnum \<Rightarrow> jsnum" where
  "js_mul x y =
     (if x = NaN \<or> y = NaN then NaN
      else case (x, y) of
        (Finite a, Finite b) \<Rightarrow> fl (a * b)
      | _ \<Rightarrow> signed_infinity (js_sign x * js_sign y))"

text \<open>
  Division; a zero divisor is taken as \<open>+0\<close> (the program divides by the constants
  \<open>100\<close>, \<open>1000\<close> and \<open>10000\<close> only).
\<close>

definition js_div :: "jsnum \<Rightarrow> jsnum \<Rightarrow> jsnum" where
  "js_div x y =
     (if x = NaN \<or> y = NaN then NaN
      else case (x, y) of
        (Finite a, Finite b) \<Rightarrow> (if b = 0 then signed_infinity (js_sign x) else fl (a / b))
      | (Finite a, _) \<Rightarrow> Finite 0
      | (_, Finite b) \<Rightarrow> signed_infinity (js_sign x * (if b < 0 then - 1 else 1))
      | _ \<Rightarrow> NaN)"

subsection \<open>\<open>parseFloat\<close>\<close>

text \<open>
  \<open>parseFloat\<close> skips leading white space, takes the longest prefix that is a
  \<open>StrDecimalLiteral\<close> (an optional sign, then \<open>Infinity\<close> or decimal digits with an
  optional fraction and an optional complete exponent part) and returns its value rounded
  to binary64, or \<open>NaN\<close> when there is no such prefix. A character of a string is one
  code unit, and the type \<open>char\<close> holds the code units below 256. Of the white space and
  line terminators that \<open>parseFloat\<close> skips these are the tabulators and line ends 9 to 13,
  the space 32 and the no-break space 160; all the others (\<open>U+1680\<close>, \<open>U+2000\<close> to
  \<open>U+200A\<close>, \<open>U+2028\<close>, \<open>U+2029\<close>, \<open>U+202F\<close>, \<open>U+205F\<close>, \<open>U+3000\<close>,
  \<open>U+FEFF\<close>) lie above 255.
\<close>

definition isWhiteSpace :: "char \<Rightarrow> bool" where
  "isWhiteSpace c = ((of_char c :: nat) \<in> {9, 10, 11, 12, 13, 32, 160})"

definition isDigit :: "char \<Rightarrow> bool" where
  "isDigit c = (48 \<le> (of_char c :: nat) \<and> (of_char c :: nat) \<le> 57)"

definition digits_value :: "string \<Rightarrow> nat" where
  "digits_value ds = foldl (\<lambda>n c. 10 * n + (of_char c - 48)) 0 ds"

definition pow10 :: "int \<Rightarrow> rat" where
  "pow10 e = (if 0 \<le> e then 10 ^ nat e else 1 / 10 ^ nat (- e))"

text \<open>
  The exponent part at the head of \<open>s\<close>: \<open>e\<close> or \<open>E\<close>, an optional sign and at
  least one digit; \<open>0\<close> when the part is absent or incomplete (it is then not part of
  the prefix).
\<close>

definition exponent_part :: "string \<Rightarrow> int" where
  "exponent_part s =
     (case s of
        [] \<Rightarrow> 0
      | c # r \<Rightarrow>
          if c = CHR ''e'' \<or> c = CHR ''E'' then
            (case r of
               [] \<Rightarrow> 0
             | d # r' \<Rightarrow>
                 if d = CHR ''-'' then
                   (if takeWhile isDigit r' = [] then 0
                    else - int (digits_value (takeWhile isDigit r')))
                 else if d = CHR ''+'' then int (digits_value (takeWhile isDigit r'))
                 else int (digits_value (takeWhile isDigit r)))
          else 0)"

text \<open>The fraction digits at the head of \<open>s\<close> (after a dot), and the rest of \<open>s\<close>.\<close>

definition fraction_part :: "string \<Rightarrow> string \<times> string" where
  "fraction_part s =
     (case s of
        [] \<Rightarrow> ([], [])
      | c # r \<Rightarrow>
          if c = CHR ''.'' then (takeWhile isDigit r, dropWhile isDigit r) else ([], s))"

text \<open>
  \<open>StrUnsignedDecimalLiteral\<close>: \<open>None\<close> when no prefix of \<open>s\<close> is one, else the
  value of the longest such prefix (\<open>PosInfinity\<close> for \<open>Infinity\<close>).
\<close>

definition parse_unsigned :: "string \<Rightarrow> jsnum option" where
  "parse_unsigned s =
     (if take 8 s = ''Infinity'' then Some PosInfinity
      else if takeWhile isDigit s = [] \<and> fst (fraction_part (dropWhile isDigit s)) = [] then None
      else Some (fl (rat_of_nat (digits_value
                       (takeWhile isDigit s @ fst (fraction_part (dropWhile isDigit s))))
                     * pow10 (exponent_part (snd (fraction_part (dropWhile isDigit s)))
                              - int (length (fst (fraction_part (dropWhile isDigit s))))))))"

definition js_neg :: "jsnum \<Rightarrow> jsnum" where
  "js_neg x =
     (case x of Finite q \<Rightarrow> Finite (- q) | PosInfinity \<Rightarrow> NegInfinity
      | NegInfinity \<Rightarrow> PosInfinity | NaN \<Rightarrow> NaN)"

definition parseFloat :: "string \<Rightarrow> jsnum" where
  "parseFloat str =
     (case dropWhile isWhiteSpace str of
        [] \<Rightarrow> NaN
      | c # r \<Rightarrow>
          if c = CHR ''-'' then (case parse_unsigned r of None \<Rightarrow> NaN | Some v \<Rightarrow> js_neg v)
          else if c = CHR ''+'' then (case parse_unsigned r of None \<Rightarrow> NaN | Some v \<Rightarrow> v)
          else (case parse_unsigned (c # r) of None \<Rightarrow> NaN | Some v \<Rightarrow> v))"

section \<open>Configuration (\<open>config.ts\<close>)\<close>

text \<open>
  The values \<open>config.ts\<close> reads from the environment at start-up are parameters of the
  model; the two platform minima are constants of the source.
\<close>

record config =
  ARB_SUM_THRESHOLD :: jsnum
  ARB_SUM_LOW :: jsnum
  ARB_PRICE_BUFFER :: jsnum
  ARB_SIZE :: jsnum
  ARB_DRY_RUN :: bool
  BOT_DRY_RUN :: bool
  POLYMARKET_PRIVATE_KEY :: string
  POLYMARKET_PROXY :: string
  POLYMARKET_MIN_USD :: jsnum
  POLYMARKET_TICK_SIZE :: string
  POLYMARKET_NEG_RISK :: bool

definition ARB_KALSHI_MIN :: jsnum where
  "ARB_KALSHI_MIN = Finite 1"

definition ARB_POLY_MIN :: jsnum where
  "ARB_POLY_MIN = Finite 1"

section \<open>Effects and errors\<close>

text \<open>
  Every call that leaves the process is recorded as an effect, in the order the program
  issues them. A log line is kept as a structured value holding what the message is
  formatted from. What the outside world answers is an argument of the model.
\<close>

datatype side = Yes | No

datatype log_line =
    ArbOpportunity side jsnum jsnum jsnum bool jsnum jsnum
  | ArbKalshiOrderFailed string
  | ArbPolymarketOrderFailed string
  | DryRunWouldPlace string side jsnum jsnum
  | OrderPlaced string string side jsnum jsnum
  | OrderFailed string string
  | PolymarketNotConfigured string jsnum jsnum
  | PolymarketBelowMinimum jsnum jsnum
  | PolymarketOrderFailed string
  | PolymarketOrderPlaced string string jsnum jsnum

datatype effect =
    Console log_line
  | MonitorLog log_line
  | Kalshi_createOrder string side jsnum jsnum
  | Gamma_fetch string
  | Clob_createAndPostOrder string jsnum jsnum string bool

datatype error =
    Rejected string
  | GammaApiNotOk
  | MissingOutcomes
  | MissingTokenIds
  | NoOpenMarkets

text \<open>What \<open>fetch\<close> followed by \<open>res.json()\<close> can give.\<close>

datatype 'a fetched = FetchRejects string | HttpNotOk | JsonRejects string | HttpOk 'a

section \<open>Polymarket monitor (\<open>polymarket-monitor.ts\<close>)\<close>

function show_nat :: "nat \<Rightarrow> string" where
  "show_nat n =
     (if n < 10 then [''0123456789'' ! n] else show_nat (n div 10) @ [''0123456789'' ! (n mod 10)])"
  by pat_completeness auto
termination
  by (relation "measure id") auto

declare show_nat.simps [simp del]

definition show_int :: "int \<Rightarrow> string" where
  "show_int i = (if i < 0 then CHR ''-'' # show_nat (nat (- i)) else show_nat (nat i))"

subsection \<open>Local time\<close>

text \<open>
  The time value of a \<open>Date\<close> is a number of milliseconds since the epoch, in UTC. The
  setters and getters that \<open>slugForCurrent15m\<close> calls work on the local time:
  \<open>LocalTime\<close> adds the offset that the time zone has at a time value, and \<open>UTC\<close>
  takes away the offset that the zone gives to a local time (where a local time occurs
  twice, at the end of daylight saving time, this is the offset before the transition; where
  it does not occur, the offset before the transition as well). The two offsets, in
  milliseconds, belong to the environment. The readings of the clock are far inside the
  range of time values, so \<open>TimeClip\<close> changes nothing.
\<close>

record time_zone =
  offset_at :: "int \<Rightarrow> int"
  offset_of_local :: "int \<Rightarrow> int"

definition LocalTime :: "time_zone \<Rightarrow> int \<Rightarrow> int" where
  "LocalTime tz t = t + offset_at tz t"

definition UTC :: "time_zone \<Rightarrow> int \<Rightarrow> int" where
  "UTC tz t = t - offset_of_local tz t"

definition Day :: "int \<Rightarrow> int" where
  "Day t = t div 86400000"

definition HourFromTime :: "int \<Rightarrow> int" where
  "HourFromTime t = (t div 3600000) mod 24"

definition MinFromTime :: "int \<Rightarrow> int" where
  "MinFromTime t = (t div 60000) mod 60"

definition SecFromTime :: "int \<Rightarrow> int" where
  "SecFromTime t = (t div 1000) mod 60"

definition MakeTime :: "int \<Rightarrow> int \<Rightarrow> int \<Rightarrow> int \<Rightarrow> int" where
  "MakeTime hour minute sec ms = hour * 3600000 + minute * 60000 + sec * 1000 + ms"

definition MakeDate :: "int \<Rightarrow> int \<Rightarrow> int" where
  "MakeDate day time = day * 86400000 + time"

text \<open>\<open>d.setSeconds(sec, ms)\<close>, \<open>d.setMilliseconds(ms)\<close>, \<open>d.getMinutes()\<close> and
  \<open>d.setMinutes(min, sec, ms)\<close> on the time value \<open>tv\<close> of \<open>d\<close>; the setters give
  the new time value.\<close>

definition setSeconds :: "time_zone \<Rightarrow> int \<Rightarrow> int \<Rightarrow> int \<Rightarrow> int" where
  "setSeconds tz sec ms tv =
     UTC tz (MakeDate (Day (LocalTime tz tv))
               (MakeTime (HourFromTime (LocalTime tz tv)) (MinFromTime (LocalTime tz tv)) sec ms))"

definition setMilliseconds :: "time_zone \<Rightarrow> int \<Rightarrow> int \<Rightarrow> int" where
  "setMilliseconds tz ms tv =
     UTC tz (MakeDate (Day (LocalTime tz tv))
               (MakeTime (HourFromTime (LocalTime tz tv)) (MinFromTime (LocalTime tz tv))
                  (SecFromTime (LocalTime tz tv)) ms))"

definition getMinutes :: "time_zone \<Rightarrow> int \<Rightarrow> int" where
  "getMinutes tz tv = MinFromTime (LocalTime tz tv)"

definition setMinutes :: "time_zone \<Rightarrow> int \<Rightarrow> int \<Rightarrow> int \<Rightarrow> int \<Rightarrow> int" where
  "setMinutes tz minute sec ms tv =
     UTC tz (MakeDate (Day (LocalTime tz tv))
               (MakeTime (HourFromTime (LocalTime tz tv)) minute sec ms))"

text \<open>
  \<open>slugForCurrent15m\<close>, from the clock reading \<open>now\<close> of \<open>new Date()\<close>:
  \<open>whole_second\<close> is the time value of \<open>d\<close> after \<open>d.setSeconds(0, 0)\<close> and
  \<open>d.setMilliseconds(0)\<close>, \<open>slot_start\<close> the one after \<open>d.setMinutes(slotMin, 0, 0)\<close>.
\<close>

definition whole_second :: "time_zone \<Rightarrow> int \<Rightarrow> int" where
  "whole_second tz now = setMilliseconds tz 0 (setSeconds tz 0 0 now)"

definition slot_start :: "time_zone \<Rightarrow> int \<Rightarrow> int" where
  "slot_start tz now =
     setMinutes tz (getMinutes tz (whole_second tz now) div 15 * 15) 0 0 (whole_second tz now)"

definition slugForCurrent15m :: "time_zone \<Rightarrow> string \<Rightarrow> int \<Rightarrow> string" where
  "slugForCurrent15m tz market now =
     market @ ''-updown-15m-'' @ show_int (slot_start tz now div 1000)"

text \<open>
  A field of the Gamma API answer that \<open>parseJsonArray\<close> reads: an array, a string
  (given by what \<open>JSON.parse\<close> makes of it: \<open>Some xs\<close> when it is the text of an array,
  \<open>None\<close> when \<open>JSON.parse\<close> throws or yields something else), or anything else.
\<close>

datatype raw_field = RawArray "string list" | RawString "string list option" | RawOther

definition parseJsonArray :: "raw_field \<Rightarrow> string list" where
  "parseJsonArray raw =
     (case raw of
        RawArray xs \<Rightarrow> xs
      | RawString parsed \<Rightarrow> (case parsed of Some xs \<Rightarrow> xs | None \<Rightarrow> [])
      | RawOther \<Rightarrow> [])"

record gamma_market =
  outcomes :: raw_field
  clobTokenIds :: raw_field
  conditionId :: "string option"

record token_ids =
  upTokenId :: string
  downTokenId :: string

record resolved_ids = token_ids +
  resolved_conditionId :: string

record cache_entry = token_ids +
  cached_slug :: string

text \<open>\<open>xs.indexOf(x)\<close>; \<open>None\<close> stands for \<open>-1\<close>.\<close>

fun indexOf :: "'a list \<Rightarrow> 'a \<Rightarrow> nat option" where
  "indexOf [] x = None"
| "indexOf (y # ys) x =
     (if y = x then Some 0 else (case indexOf ys x of None \<Rightarrow> None | Some i \<Rightarrow> Some (Suc i)))"

text \<open>\<open>xs[i]\<close>, \<open>None\<close> for \<open>undefined\<close>.\<close>

definition at_index :: "'a list \<Rightarrow> nat \<Rightarrow> 'a option" where
  "at_index xs i = (if i < length xs then Some (xs ! i) else None)"

definition fetchTokenIdsForSlug :: "string \<Rightarrow> gamma_market fetched \<Rightarrow> error + resolved_ids" where
  "fetchTokenIdsForSlug slug reply =
     (case reply of
        FetchRejects m \<Rightarrow> Inl (Rejected m)
      | HttpNotOk \<Rightarrow> Inl GammaApiNotOk
      | JsonRejects m \<Rightarrow> Inl (Rejected m)
      | HttpOk data \<Rightarrow>
          (case (indexOf (parseJsonArray (outcomes data)) ''Up'',
                 indexOf (parseJsonArray (outcomes data)) ''Down'') of
             (Some upIdx, Some downIdx) \<Rightarrow>
               (case (at_index (parseJsonArray (clobTokenIds data)) upIdx,
                      at_index (parseJsonArray (clobTokenIds data)) downIdx) of
                  (Some up, Some down) \<Rightarrow>
                    if up = [] \<or> down = [] then Inl MissingTokenIds
                    else Inr \<lparr>upTokenId = up, downTokenId = down,
                              resolved_conditionId =
                                (case conditionId data of Some c \<Rightarrow> c | None \<Rightarrow> [])\<rparr>
                | _ \<Rightarrow> Inl MissingTokenIds)
           | _ \<Rightarrow> Inl MissingOutcomes))"

text \<open>
  \<open>getTokenIdsForSlugCached\<close>: the module variable \<open>tokenIdsCache\<close> is passed in and
  returned; \<open>reply\<close> is what the Gamma API would answer, read only on a miss.
\<close>

definition getTokenIdsForSlugCached ::
  "cache_entry option \<Rightarrow> string \<Rightarrow> gamma_market fetched
     \<Rightarrow> cache_entry option \<times> effect list \<times> (error + token_ids)" where
  "getTokenIdsForSlugCached tokenIdsCache slug reply =
     (case (case tokenIdsCache of
              None \<Rightarrow> None
            | Some c \<Rightarrow> if cached_slug c = slug then Some c else None) of
        Some c \<Rightarrow>
          (tokenIdsCache, [], Inr \<lparr>upTokenId = upTokenId c, downTokenId = downTokenId c\<rparr>)
      | None \<Rightarrow>
          (case fetchTokenIdsForSlug slug reply of
             Inl e \<Rightarrow> (tokenIdsCache, [Gamma_fetch slug], Inl e)
           | Inr fresh \<Rightarrow>
               (Some \<lparr>upTokenId = upTokenId fresh, downTokenId = downTokenId fresh,
                      cached_slug = slug\<rparr>,
                [Gamma_fetch slug],
                Inr \<lparr>upTokenId = upTokenId fresh, downTokenId = downTokenId fresh\<rparr>)))"

record ask_level =
  price :: string
  size :: string

text \<open>
  \<open>getBestAskForToken\<close>; the answer of the order book holds \<open>asks\<close>, \<open>None\<close> when
  it is not an array.
\<close>

definition best_ask_step :: "jsnum \<Rightarrow> ask_level \<Rightarrow> jsnum" where
  "best_ask_step best level =
     (if isFinite (parseFloat (price level)) \<and> js_lt (parseFloat (price level)) best
      then parseFloat (price level) else best)"

definition getBestAskForToken :: "ask_level list option fetched \<Rightarrow> error + jsnum option" where
  "getBestAskForToken reply =
     (case reply of
        FetchRejects m \<Rightarrow> Inl (Rejected m)
      | HttpNotOk \<Rightarrow> Inr None
      | JsonRejects m \<Rightarrow> Inl (Rejected m)
      | HttpOk asks \<Rightarrow>
          (case asks of
             None \<Rightarrow> Inr None
           | Some levels \<Rightarrow>
               if levels = [] then Inr None
               else if foldl best_ask_step PosInfinity levels = PosInfinity then Inr None
               else Inr (Some (foldl best_ask_step PosInfinity levels))))"

record PolymarketPrices =
  slug :: string
  upAsk :: jsnum
  downAsk :: jsnum
  pm_fetchedAt :: int

text \<open>
  What the Polymarket side answers within one price read, the time zone of the process,
  and the clock (milliseconds since the epoch) when the read starts and when it finishes.
\<close>

record polymarket_env =
  pm_zone :: time_zone
  pm_started :: int
  gamma_reply :: "gamma_market fetched"
  up_book_reply :: "ask_level list option fetched"
  down_book_reply :: "ask_level list option fetched"
  pm_finished :: int

text \<open>
  The body of the \<open>try\<close> block of \<open>getPolymarketAskPrices\<close>: \<open>Inl\<close> is an exception
  on its way to the \<open>catch\<close>.
\<close>

definition polymarket_try ::
  "cache_entry option \<Rightarrow> string \<Rightarrow> polymarket_env
     \<Rightarrow> cache_entry option \<times> effect list \<times> (error + PolymarketPrices option)" where
  "polymarket_try tokenIdsCache slug' env =
     (case getTokenIdsForSlugCached tokenIdsCache slug' (gamma_reply env) of
        (cache', fx, Inl e) \<Rightarrow> (cache', fx, Inl e)
      | (cache', fx, Inr ids) \<Rightarrow>
          (case (getBestAskForToken (up_book_reply env),
                 getBestAskForToken (down_book_reply env)) of
             (Inl e, _) \<Rightarrow> (cache', fx, Inl e)
           | (Inr _, Inl e) \<Rightarrow> (cache', fx, Inl e)
           | (Inr up, Inr down) \<Rightarrow>
               (case (up, down) of
                  (Some u, Some d) \<Rightarrow>
                    (cache', fx,
                     Inr (Some \<lparr>slug = slug', upAsk = u, downAsk = d,
                                pm_fetchedAt = pm_finished env\<rparr>))
                | _ \<Rightarrow> (cache', fx, Inr None))))"

text \<open>\<open>getPolymarketAskPrices\<close>: the \<open>catch\<close> turns every exception into \<open>null\<close>.\<close>

definition getPolymarketAskPrices ::
  "cache_entry option \<Rightarrow> string \<Rightarrow> polymarket_env
     \<Rightarrow> cache_entry option \<times> effect list \<times> (error + PolymarketPrices option)" where
  "getPolymarketAskPrices tokenIdsCache market env =
     (case polymarket_try tokenIdsCache
             (slugForCurrent15m (pm_zone env) market (pm_started env)) env of
        (cache', fx, Inl e) \<Rightarrow> (cache', fx, Inr None)
      | (cache', fx, Inr r) \<Rightarrow> (cache', fx, Inr r))"

section \<open>Kalshi monitor (\<open>monitor.ts\<close>)\<close>

record MarketPrices =
  ticker :: string
  upAskCents :: jsnum
  downAskCents :: jsnum
  lastPriceCents :: jsnum
  k_fetchedAt :: int

text \<open>
  The fields of the market object that \<open>getMarketPrices\<close> reads; \<open>None\<close> is
  \<open>null\<close> or \<open>undefined\<close>.
\<close>

record kalshi_market =
  m_ticker :: string
  yes_ask :: "jsnum option"
  yes_ask_dollars :: "string option"
  no_ask :: "jsnum option"
  no_ask_dollars :: "string option"
  last_price :: "jsnum option"
  last_price_dollars :: "string option"

text \<open>
  What \<open>marketApi.getMarket\<close> gives: it throws (also when the answer has no
  \<open>data\<close>), or \<open>res.data.market\<close> is missing or present.
\<close>

datatype kalshi_reply = GetMarketThrows string | GetMarketData "kalshi_market option"

definition dollarsToCents :: "string option \<Rightarrow> jsnum" where
  "dollarsToCents dollars =
     (case dollars of
        None \<Rightarrow> Finite 0
      | Some d \<Rightarrow>
          if d = [] then Finite 0
          else if isFinite (parseFloat d) then Math_round (js_mul (parseFloat d) (Finite 100))
          else Finite 0)"

text \<open>\<open>a ?? b\<close>.\<close>

definition nullish :: "'a option \<Rightarrow> 'a \<Rightarrow> 'a" where
  "nullish a b = (case a of Some v \<Rightarrow> v | None \<Rightarrow> b)"

text \<open>The body of the \<open>try\<close> block of \<open>getMarketPrices\<close>.\<close>

definition market_try :: "int \<Rightarrow> kalshi_reply \<Rightarrow> error + MarketPrices option" where
  "market_try now reply =
     (case reply of
        GetMarketThrows msg \<Rightarrow> Inl (Rejected msg)
      | GetMarketData None \<Rightarrow> Inr None
      | GetMarketData (Some m) \<Rightarrow>
          Inr (Some \<lparr>ticker = m_ticker m,
                     upAskCents = nullish (yes_ask m) (dollarsToCents (yes_ask_dollars m)),
                     downAskCents = nullish (no_ask m) (dollarsToCents (no_ask_dollars m)),
                     lastPriceCents =
                       nullish (last_price m) (dollarsToCents (last_price_dollars m)),
                     k_fetchedAt = now\<rparr>))"

text \<open>
  \<open>getMarketApi\<close>: the module variable \<open>cachedMarketApi\<close> is passed in (\<open>True\<close>
  when it holds a client) and returned. \<open>construction\<close> is what
  \<open>new MarketApi(buildConfiguration())\<close> does, read only when no client is cached: it
  gives a client (\<open>None\<close>) or throws (\<open>Some\<close> of the message).
\<close>

definition getMarketApi :: "bool \<Rightarrow> string option \<Rightarrow> bool \<times> (error + unit)" where
  "getMarketApi cachedMarketApi construction =
     (if cachedMarketApi then (True, Inr ())
      else case construction of
             Some msg \<Rightarrow> (False, Inl (Rejected msg))
           | None \<Rightarrow> (True, Inr ()))"

text \<open>
  \<open>getMarketPrices\<close>: \<open>getMarketApi()\<close> is called before the \<open>try\<close>, so an
  exception of the construction of the client rejects the promise; the \<open>catch\<close> turns
  every exception of the \<open>try\<close> block into \<open>null\<close>.
\<close>

definition getMarketPrices ::
  "bool \<Rightarrow> string option \<Rightarrow> int \<Rightarrow> kalshi_reply \<Rightarrow> bool \<times> (error + MarketPrices option)" where
  "getMarketPrices cachedMarketApi construction now reply =
     (case getMarketApi cachedMarketApi construction of
        (cached', Inl e) \<Rightarrow> (cached', Inl e)
      | (cached', Inr marketApi) \<Rightarrow>
          (cached', case market_try now reply of Inl e \<Rightarrow> Inr None | Inr r \<Rightarrow> Inr r))"

record DualMarketPrices =
  kalshiTicker :: string
  kalshi :: "MarketPrices option"
  polymarket :: "PolymarketPrices option"
  fetchedAt :: int

text \<open>
  What both venues answer within one tick, the clock when \<open>getDualPrices\<close> starts and
  when the Kalshi read finishes, and what the construction of the Kalshi client does if
  this tick reaches it.
\<close>

record dual_env =
  clock :: int
  client_construction :: "string option"
  kalshi_answer :: kalshi_reply
  kalshi_finished :: int
  polymarket_answer :: polymarket_env

text \<open>
  \<open>getDualPrices\<close>: both reads are started, and \<open>Promise.all\<close> rejects as soon as
  one of them rejects. The module variables \<open>cachedMarketApi\<close> and \<open>tokenIdsCache\<close>
  are passed in and returned.
\<close>

definition getDualPrices ::
  "bool \<Rightarrow> cache_entry option \<Rightarrow> string \<Rightarrow> string option \<Rightarrow> dual_env
     \<Rightarrow> bool \<times> cache_entry option \<times> effect list \<times> (error + DualMarketPrices)" where
  "getDualPrices cachedMarketApi tokenIdsCache kalshiTicker' polymarketMarket env =
     (case (getMarketPrices cachedMarketApi (client_construction env) (kalshi_finished env)
              (kalshi_answer env),
            getPolymarketAskPrices tokenIdsCache (nullish polymarketMarket ''btc'')
              (polymarket_answer env)) of
        ((cached', kalshiResult), (cache', fx, polymarketResult)) \<Rightarrow>
          (case (kalshiResult, polymarketResult) of
             (Inl e, _) \<Rightarrow> (cached', cache', fx, Inl e)
           | (Inr _, Inl e) \<Rightarrow> (cached', cache', fx, Inl e)
           | (Inr k, Inr pm) \<Rightarrow>
               (cached', cache', fx,
                Inr \<lparr>kalshiTicker = kalshiTicker', kalshi = k,
                     polymarket = pm, fetchedAt = clock env\<rparr>)))"

section \<open>Order placement (\<open>bot.ts\<close>, \<open>polymarket-order.ts\<close>)\<close>

text \<open>\<open>{ orderId }\<close> or \<open>{ error }\<close>.\<close>

datatype order_result = OrderId string | OrderError string

text \<open>What \<open>ordersApi.createOrder\<close> gives: the order id of the answer, or it throws.\<close>

datatype createOrder_outcome = OrderCreated "string option" | CreateOrderThrows string

text \<open>
  \<open>placeOrder(ticker, side, count, priceCents, options)\<close>; \<open>arbLive\<close> is
  \<open>options?.arbLive\<close>.
\<close>

definition placeOrder ::
  "config \<Rightarrow> createOrder_outcome \<Rightarrow> string \<Rightarrow> side \<Rightarrow> jsnum \<Rightarrow> jsnum \<Rightarrow> bool option
     \<Rightarrow> order_result \<times> effect list" where
  "placeOrder cfg outcome tkr sd count priceCents arbLive =
     (if (if nullish arbLive False then False else BOT_DRY_RUN cfg) then
        (OrderId ''dry-run'',
         [Console (DryRunWouldPlace tkr sd count priceCents),
          MonitorLog (DryRunWouldPlace tkr sd count priceCents)])
      else
        (case outcome of
           OrderCreated order_id \<Rightarrow>
             (OrderId (nullish order_id ''unknown''),
              [Kalshi_createOrder tkr sd count (Math_max (Finite 1) (Math_min (Finite 99) priceCents)),
               Console (OrderPlaced (nullish order_id ''unknown'') tkr sd count
                          (Math_max (Finite 1) (Math_min (Finite 99) priceCents))),
               MonitorLog (OrderPlaced (nullish order_id ''unknown'') tkr sd count
                             (Math_max (Finite 1) (Math_min (Finite 99) priceCents)))])
         | CreateOrderThrows msg \<Rightarrow>
             (OrderError msg,
              [Kalshi_createOrder tkr sd count (Math_max (Finite 1) (Math_min (Finite 99) priceCents)),
               Console (OrderFailed tkr msg),
               MonitorLog (OrderFailed tkr msg)])))"

record PlacePolymarketOrderOptions =
  tickSize :: "string option"
  negRisk :: "bool option"
  forcePlace :: "bool option"

text \<open>
  What the CLOB client gives: building it throws, posting throws (with the detail of the
  answer, when there is one), or the answer with its \<open>orderID\<close>, \<open>orderId\<close> and
  \<open>error\<close> fields.
\<close>

datatype clob_outcome =
    ClobClientThrows string
  | ClobPostThrows string "string option"
  | ClobResponse "string option" "string option" "string option"

definition roundPriceToTickSize :: "jsnum \<Rightarrow> string \<Rightarrow> jsnum" where
  "roundPriceToTickSize p tick =
     (if tick = ''0.01'' then js_div (Math_round (js_mul p (Finite 100))) (Finite 100)
      else if tick = ''0.001'' then js_div (Math_round (js_mul p (Finite 1000))) (Finite 1000)
      else js_div (Math_round (js_mul p (Finite 10000))) (Finite 10000))"

text \<open>\<open>a || b\<close> and \<open>!a\<close> on optional strings, where the empty string is falsy.\<close>

definition truthy :: "string option \<Rightarrow> bool" where
  "truthy a = (case a of None \<Rightarrow> False | Some v \<Rightarrow> v \<noteq> [])"

text \<open>\<open>options?.tickSize ?? POLYMARKET_TICK_SIZE\<close> and its siblings.\<close>

definition option_tickSize :: "config \<Rightarrow> PlacePolymarketOrderOptions option \<Rightarrow> string" where
  "option_tickSize cfg options =
     nullish (case options of None \<Rightarrow> None | Some opts \<Rightarrow> tickSize opts) (POLYMARKET_TICK_SIZE cfg)"

definition option_negRisk :: "config \<Rightarrow> PlacePolymarketOrderOptions option \<Rightarrow> bool" where
  "option_negRisk cfg options =
     nullish (case options of None \<Rightarrow> None | Some opts \<Rightarrow> negRisk opts) (POLYMARKET_NEG_RISK cfg)"

definition option_forcePlace :: "PlacePolymarketOrderOptions option \<Rightarrow> bool" where
  "option_forcePlace options =
     (case options of None \<Rightarrow> False | Some opts \<Rightarrow> nullish (forcePlace opts) False)"

definition minUsd :: "config \<Rightarrow> jsnum" where
  "minUsd cfg =
     (if js_gt (POLYMARKET_MIN_USD cfg) (Finite 0) then POLYMARKET_MIN_USD cfg else Finite 1)"

text \<open>The call \<open>clobClient.createAndPostOrder\<close> of \<open>placePolymarketOrder\<close>.\<close>

definition clob_post ::
  "config \<Rightarrow> string \<Rightarrow> jsnum \<Rightarrow> jsnum \<Rightarrow> PlacePolymarketOrderOptions option \<Rightarrow> effect" where
  "clob_post cfg tokenId p sz options =
     Clob_createAndPostOrder tokenId (roundPriceToTickSize p (option_tickSize cfg options)) sz
       (option_tickSize cfg options) (option_negRisk cfg options)"

definition placePolymarketOrder ::
  "config \<Rightarrow> clob_outcome \<Rightarrow> string \<Rightarrow> jsnum \<Rightarrow> jsnum \<Rightarrow> PlacePolymarketOrderOptions option
     \<Rightarrow> order_result option \<times> effect list" where
  "placePolymarketOrder cfg outcome tokenId p sz options =
     (if POLYMARKET_PRIVATE_KEY cfg = [] \<or> POLYMARKET_PROXY cfg = [] then
        (None,
         [Console (PolymarketNotConfigured tokenId p sz),
          MonitorLog (PolymarketNotConfigured tokenId p sz)])
      else if ARB_DRY_RUN cfg \<and> \<not> option_forcePlace options then (None, [])
      else if js_lt (js_mul p sz) (minUsd cfg) then
        (Some (OrderError ''notional below minimum''),
         [Console (PolymarketBelowMinimum (js_mul p sz) (minUsd cfg)),
          MonitorLog (PolymarketBelowMinimum (js_mul p sz) (minUsd cfg))])
      else
        (case outcome of
           ClobClientThrows msg \<Rightarrow>
             (Some (OrderError msg),
              [Console (PolymarketOrderFailed msg), MonitorLog (PolymarketOrderFailed msg)])
         | ClobPostThrows msg detail \<Rightarrow>
             (Some (OrderError (msg @ nullish detail [])),
              [clob_post cfg tokenId p sz options,
               Console (PolymarketOrderFailed (msg @ nullish detail [])),
               MonitorLog (PolymarketOrderFailed (msg @ nullish detail []))])
         | ClobResponse orderID orderId' err \<Rightarrow>
             if truthy err \<or> \<not> truthy (case orderID of None \<Rightarrow> orderId' | Some v \<Rightarrow> Some v) then
               (Some (OrderError (nullish err ''No order ID in response'')),
                [clob_post cfg tokenId p sz options,
                 Console (PolymarketOrderFailed (nullish err ''No order ID in response'')),
                 MonitorLog (PolymarketOrderFailed (nullish err ''No order ID in response''))])
             else
               (Some (OrderId (nullish orderID (nullish orderId' []))),
                [clob_post cfg tokenId p sz options,
                 Console (PolymarketOrderPlaced (nullish orderID (nullish orderId' [])) tokenId
                            (roundPriceToTickSize p (option_tickSize cfg options)) sz),
                 MonitorLog (PolymarketOrderPlaced (nullish orderID (nullish orderId' [])) tokenId
                               (roundPriceToTickSize p (option_tickSize cfg options)) sz)])))"

section \<open>Arbitrage detector and executor (\<open>arb.ts\<close>)\<close>

text \<open>The two module-level sets of \<open>arb.ts\<close>.\<close>

record arb_state =
  upArbDoneTickers :: "string set"
  downArbDoneTickers :: "string set"

definition initial_arb_state :: arb_state where
  "initial_arb_state = \<lparr>upArbDoneTickers = {}, downArbDoneTickers = {}\<rparr>"

definition inRange :: "config \<Rightarrow> jsnum \<Rightarrow> bool" where
  "inRange cfg s = (isFinite s \<and> js_ge s (ARB_SUM_LOW cfg) \<and> js_lt s (ARB_SUM_THRESHOLD cfg))"

text \<open>The local constants of \<open>checkArbAndPlaceOrders\<close>.\<close>

definition kUp :: "MarketPrices \<Rightarrow> jsnum" where
  "kUp k = js_div (upAskCents k) (Finite 100)"

definition kDown :: "MarketPrices \<Rightarrow> jsnum" where
  "kDown k = js_div (downAskCents k) (Finite 100)"

definition sumUp :: "MarketPrices \<Rightarrow> PolymarketPrices \<Rightarrow> jsnum" where
  "sumUp k pm = js_add (kUp k) (downAsk pm)"

definition sumDown :: "MarketPrices \<Rightarrow> PolymarketPrices \<Rightarrow> jsnum" where
  "sumDown k pm = js_add (kDown k) (upAsk pm)"

definition kalshiContracts :: "config \<Rightarrow> jsnum" where
  "kalshiContracts cfg = Math_max ARB_KALSHI_MIN (Math_round (ARB_SIZE cfg))"

definition polySize :: "config \<Rightarrow> jsnum" where
  "polySize cfg = Math_max ARB_POLY_MIN (ARB_SIZE cfg)"

text \<open>
  What the block under \<open>if (!ARB_DRY_RUN)\<close> of a leg works with: the arguments of the
  two order calls. The side tells the leg: \<open>Yes\<close> is leg 1 (Kalshi UP with Polymarket
  DOWN), \<open>No\<close> is leg 2.
\<close>

record leg_plan =
  plan_ticker :: string
  plan_side :: side
  plan_contracts :: jsnum
  plan_kalshiPriceCents :: jsnum
  plan_slug :: string
  plan_polyPrice :: jsnum
  plan_polySize :: jsnum

text \<open>
  \<open>checkArbAndPlaceOrders\<close> up to its first \<open>await\<close>: this part runs within the
  caller's turn of the event loop. It returns the sets, what it logged, and the orders to
  place, if any.
\<close>

definition arb_decide ::
  "config \<Rightarrow> arb_state \<Rightarrow> DualMarketPrices \<Rightarrow> arb_state \<times> effect list \<times> leg_plan option" where
  "arb_decide cfg st p =
     (case (kalshi p, polymarket p) of
        (Some k, Some pm) \<Rightarrow>
          if inRange cfg (sumUp k pm) then
            if kalshiTicker p \<in> upArbDoneTickers st then (st, [], None)
            else
              (st\<lparr>upArbDoneTickers := insert (kalshiTicker p) (upArbDoneTickers st)\<rparr>,
               [Console (ArbOpportunity Yes (sumUp k pm) (kUp k) (downAsk pm) (ARB_DRY_RUN cfg)
                           (Math_round (js_mul (js_add (kUp k) (ARB_PRICE_BUFFER cfg)) (Finite 100)))
                           (Math_min (Finite 1) (js_add (downAsk pm) (ARB_PRICE_BUFFER cfg)))),
                MonitorLog (ArbOpportunity Yes (sumUp k pm) (kUp k) (downAsk pm) (ARB_DRY_RUN cfg)
                           (Math_round (js_mul (js_add (kUp k) (ARB_PRICE_BUFFER cfg)) (Finite 100)))
                           (Math_min (Finite 1) (js_add (downAsk pm) (ARB_PRICE_BUFFER cfg))))],
               if ARB_DRY_RUN cfg then None
               else Some \<lparr>plan_ticker = kalshiTicker p, plan_side = Yes,
                          plan_contracts = kalshiContracts cfg,
                          plan_kalshiPriceCents =
                            Math_round (js_mul (js_add (kUp k) (ARB_PRICE_BUFFER cfg)) (Finite 100)),
                          plan_slug = slug pm,
                          plan_polyPrice =
                            Math_min (Finite 1) (js_add (downAsk pm) (ARB_PRICE_BUFFER cfg)),
                          plan_polySize = polySize cfg\<rparr>)
          else if inRange cfg (sumDown k pm) then
            if kalshiTicker p \<in> downArbDoneTickers st then (st, [], None)
            else
              (st\<lparr>downArbDoneTickers := insert (kalshiTicker p) (downArbDoneTickers st)\<rparr>,
               [Console (ArbOpportunity No (sumDown k pm) (kDown k) (upAsk pm) (ARB_DRY_RUN cfg)
                           (Math_round (js_mul (js_add (kDown k) (ARB_PRICE_BUFFER cfg)) (Finite 100)))
                           (Math_min (Finite 1) (js_add (upAsk pm) (ARB_PRICE_BUFFER cfg)))),
                MonitorLog (ArbOpportunity No (sumDown k pm) (kDown k) (upAsk pm) (ARB_DRY_RUN cfg)
                           (Math_round (js_mul (js_add (kDown k) (ARB_PRICE_BUFFER cfg)) (Finite 100)))
                           (Math_min (Finite 1) (js_add (upAsk pm) (ARB_PRICE_BUFFER cfg))))],
               if ARB_DRY_RUN cfg then None
               else Some \<lparr>plan_ticker = kalshiTicker p, plan_side = No,
                          plan_contracts = kalshiContracts cfg,
                          plan_kalshiPriceCents =
                            Math_round (js_mul (js_add (kDown k) (ARB_PRICE_BUFFER cfg)) (Finite 100)),
                          plan_slug = slug pm,
                          plan_polyPrice =
                            Math_min (Finite 1) (js_add (upAsk pm) (ARB_PRICE_BUFFER cfg)),
                          plan_polySize = polySize cfg\<rparr>)
          else (st, [], None)
      | _ \<Rightarrow> (st, [], None))"

text \<open>What the venues answer to the orders of one leg.\<close>

record order_env =
  createOrder_answer :: createOrder_outcome
  gamma_answer :: "gamma_market fetched"
  clob_answer :: clob_outcome

definition kalshi_failed_log :: "order_result \<Rightarrow> effect list" where
  "kalshi_failed_log kalshiResult =
     (case kalshiResult of
        OrderError m \<Rightarrow> [MonitorLog (ArbKalshiOrderFailed m)]
      | OrderId _ \<Rightarrow> [])"

definition poly_failed_log :: "order_result option \<Rightarrow> effect list" where
  "poly_failed_log polyResult =
     (case polyResult of
        Some (OrderError m) \<Rightarrow> [MonitorLog (ArbPolymarketOrderFailed m)]
      | _ \<Rightarrow> [])"

text \<open>
  The block under \<open>if (!ARB_DRY_RUN)\<close>. It has the token cache at hand and not the
  two sets. \<open>Promise.all\<close> starts the Kalshi order and the token lookup together; the
  effects of the two are listed one call after the other. When the lookup rejects, the
  exception leaves \<open>checkArbAndPlaceOrders\<close> (the last component).
\<close>

definition arb_submit ::
  "config \<Rightarrow> order_env \<Rightarrow> cache_entry option \<Rightarrow> leg_plan
     \<Rightarrow> cache_entry option \<times> effect list \<times> error option" where
  "arb_submit cfg env tokenIdsCache lo =
     (case placeOrder cfg (createOrder_answer env) (plan_ticker lo) (plan_side lo)
             (plan_contracts lo) (plan_kalshiPriceCents lo) (Some True) of
        (kalshiResult, fx_k) \<Rightarrow>
          (case getTokenIdsForSlugCached tokenIdsCache (plan_slug lo) (gamma_answer env) of
             (cache', fx_t, Inl e) \<Rightarrow> (cache', fx_k @ fx_t, Some e)
           | (cache', fx_t, Inr tokenIds) \<Rightarrow>
               (case placePolymarketOrder cfg (clob_answer env)
                       (case plan_side lo of
                          Yes \<Rightarrow> downTokenId tokenIds
                        | No \<Rightarrow> upTokenId tokenIds)
                       (plan_polyPrice lo) (plan_polySize lo) None of
                  (polyResult, fx_p) \<Rightarrow>
                    (cache', fx_k @ fx_t @ kalshi_failed_log kalshiResult @ fx_p
                             @ poly_failed_log polyResult,
                     None))))"

text \<open>The state that outlives a tick: the two sets and the token cache.\<close>

record process_state =
  arb :: arb_state
  tokenIdsCache :: "cache_entry option"

definition checkArbAndPlaceOrders ::
  "config \<Rightarrow> order_env \<Rightarrow> process_state \<Rightarrow> DualMarketPrices
     \<Rightarrow> process_state \<times> effect list \<times> error option" where
  "checkArbAndPlaceOrders cfg env s p =
     (case arb_decide cfg (arb s) p of
        (st', fx, None) \<Rightarrow> (s\<lparr>arb := st'\<rparr>, fx, None)
      | (st', fx, Some lo) \<Rightarrow>
          (case arb_submit cfg env (tokenIdsCache s) lo of
             (cache', fx', r) \<Rightarrow> (\<lparr>arb = st', tokenIdsCache = cache'\<rparr>, fx @ fx', r)))"

text \<open>
  A run of the process: one call of \<open>checkArbAndPlaceOrders\<close> per snapshot, each with
  what the venues answer to it. The result lists the effects call by call.
\<close>

fun run_arb ::
  "config \<Rightarrow> process_state \<Rightarrow> (order_env \<times> DualMarketPrices) list
     \<Rightarrow> process_state \<times> effect list list" where
  "run_arb cfg s [] = (s, [])"
| "run_arb cfg s ((env, p) # rest) =
     (case checkArbAndPlaceOrders cfg env s p of
        (s', fx, _) \<Rightarrow> (case run_arb cfg s' rest of (s'', fxs) \<Rightarrow> (s'', fx # fxs)))"

definition is_kalshi_order :: "string \<Rightarrow> side \<Rightarrow> effect \<Rightarrow> bool" where
  "is_kalshi_order t sd e =
     (case e of Kalshi_createOrder t' sd' _ _ \<Rightarrow> t' = t \<and> sd' = sd | _ \<Rightarrow> False)"

definition is_kalshi_submission :: "effect \<Rightarrow> bool" where
  "is_kalshi_submission e = (case e of Kalshi_createOrder _ _ _ _ \<Rightarrow> True | _ \<Rightarrow> False)"

definition is_polymarket_submission :: "effect \<Rightarrow> bool" where
  "is_polymarket_submission e =
     (case e of Clob_createAndPostOrder _ _ _ _ _ \<Rightarrow> True | _ \<Rightarrow> False)"

text \<open>The set of one leg, by the Kalshi side of the leg.\<close>

definition done_set :: "side \<Rightarrow> process_state \<Rightarrow> string set" where
  "done_set sd s =
     (case sd of Yes \<Rightarrow> upArbDoneTickers (arb s) | No \<Rightarrow> downArbDoneTickers (arb s))"

section \<open>Poll scheduler (\<open>startDualPriceMonitor\<close> in \<open>monitor.ts\<close>)\<close>

text \<open>
  The scheduler is a closure over four variables, run by the event loop: a timer fires
  and calls \<open>poll\<close>, which runs until it finishes or reaches an \<open>await\<close>; a settled
  promise resumes the invocation that awaits it. The model is a transition function over
  the closure variables, the pending timers and the suspended invocations of \<open>poll\<close>.
  The environment chooses which timer fires and which promise settles next, gives the
  clock readings (milliseconds) and the result of each awaited call. Which timer fires
  first is left open: the model has every order the real clock could produce, and more.
\<close>

record monitor_options =
  opt_kalshiTicker :: "string option"
  opt_polymarketMarket :: "string option"
  opt_intervalMs :: "int option"
  opt_restartProcessOnQuarterHour :: "bool option"

definition DEFAULT_POLL_MS :: int where
  "DEFAULT_POLL_MS = 2000"

record poll_config =
  intervalMs :: int
  useAutoRefresh :: bool
  restartOnQuarterHour :: bool
  polymarketMarket :: string

text \<open>
  An invocation of \<open>poll\<close> suspended at \<open>await getBitcoinUpDownMarkets()\<close> or at
  \<open>await getDualPrices(...)\<close>, with its \<open>startedAt\<close>.
\<close>

datatype frame = AwaitMarkets int | AwaitDual int

record scheduler =
  cur_kalshiTicker :: string
  lastSlot :: string
  stopped :: bool
  pollInProgress :: bool
  timers :: "int list"
  awaiting :: "frame list"
  delivered :: "DualMarketPrices list"
  exited :: bool

text \<open>
  \<open>startDualPriceMonitor\<close> up to \<open>setTimeout(poll, 0)\<close>: \<open>slot\<close> is
  \<open>current15mSlot()\<close>, \<open>markets\<close> the tickers \<open>getBitcoinUpDownMarkets\<close> gives
  (read only when no ticker is set).
\<close>

definition startDualPriceMonitor ::
  "monitor_options \<Rightarrow> string \<Rightarrow> error + string list \<Rightarrow> error + poll_config \<times> scheduler" where
  "startDualPriceMonitor options slot markets =
     (case (if truthy (opt_kalshiTicker options) then Inr (nullish (opt_kalshiTicker options) [])
            else case markets of
                   Inl e \<Rightarrow> Inl e
                 | Inr ms \<Rightarrow> if ms = [] then Inl NoOpenMarkets else Inr (hd ms)) of
        Inl e \<Rightarrow> Inl e
      | Inr tkr \<Rightarrow>
          Inr (\<lparr>intervalMs = nullish (opt_intervalMs options) DEFAULT_POLL_MS,
                useAutoRefresh = (\<not> truthy (opt_kalshiTicker options)),
                restartOnQuarterHour =
                  nullish (opt_restartProcessOnQuarterHour options)
                    (\<not> truthy (opt_kalshiTicker options)),
                polymarketMarket = nullish (opt_polymarketMarket options) ''btc''\<rparr>,
               \<lparr>cur_kalshiTicker = tkr, lastSlot = slot, stopped = False,
                pollInProgress = False, timers = [0], awaiting = [], delivered = [],
                exited = False\<rparr>))"

definition remove_nth :: "nat \<Rightarrow> 'a list \<Rightarrow> 'a list" where
  "remove_nth i xs = take i xs @ drop (Suc i) xs"

text \<open>\<open>scheduleNext(startedAt)\<close>; \<open>now\<close> is its reading of \<open>Date.now()\<close>.\<close>

definition scheduleNext :: "poll_config \<Rightarrow> int \<Rightarrow> int \<Rightarrow> scheduler \<Rightarrow> scheduler" where
  "scheduleNext cfg startedAt now s =
     (if stopped s then s
      else s\<lparr>timers := timers s @ [max 0 (intervalMs cfg - (now - startedAt))]\<rparr>)"

text \<open>The \<open>finally\<close> block of \<open>poll\<close>.\<close>

definition finish :: "scheduler \<Rightarrow> scheduler" where
  "finish s = s\<lparr>pollInProgress := False\<rparr>"

text \<open>
  \<open>poll\<close> from \<open>if (stopped || !kalshiTicker)\<close> to \<open>await getDualPrices(...)\<close>.
\<close>

definition fetch_or_reschedule :: "poll_config \<Rightarrow> int \<Rightarrow> int \<Rightarrow> scheduler \<Rightarrow> scheduler" where
  "fetch_or_reschedule cfg startedAt now s =
     (if stopped s \<or> cur_kalshiTicker s = [] then finish (scheduleNext cfg startedAt now s)
      else s\<lparr>awaiting := awaiting s @ [AwaitDual startedAt]\<rparr>)"

text \<open>
  \<open>poll\<close> from its call to its first \<open>await\<close> (or its end): \<open>now\<close> is the reading
  taken for \<open>startedAt\<close>, \<open>slot\<close> is \<open>current15mSlot()\<close>, \<open>now'\<close> the reading of
  \<open>scheduleNext\<close> if it is reached. \<open>spawnAndExit\<close> ends the process: nothing runs
  after it.
\<close>

definition poll :: "poll_config \<Rightarrow> int \<Rightarrow> string \<Rightarrow> int \<Rightarrow> scheduler \<Rightarrow> scheduler" where
  "poll cfg now slot now' s =
     (if pollInProgress s then s
      else if stopped s then finish (s\<lparr>pollInProgress := True\<rparr>)
      else if useAutoRefresh cfg \<and> slot \<noteq> lastSlot s then
        (if restartOnQuarterHour cfg
         then s\<lparr>pollInProgress := True, lastSlot := slot, exited := True\<rparr>
         else s\<lparr>pollInProgress := True, lastSlot := slot,
                awaiting := awaiting s @ [AwaitMarkets now]\<rparr>)
      else fetch_or_reschedule cfg now now' (s\<lparr>pollInProgress := True\<rparr>))"

text \<open>\<open>poll\<close> resumed after \<open>await getBitcoinUpDownMarkets()\<close>.\<close>

definition resume_markets ::
  "poll_config \<Rightarrow> int \<Rightarrow> error + string list \<Rightarrow> int \<Rightarrow> scheduler \<Rightarrow> scheduler" where
  "resume_markets cfg startedAt result now' s =
     (case result of
        Inl e \<Rightarrow> finish s
      | Inr markets \<Rightarrow>
          fetch_or_reschedule cfg startedAt now'
            (if markets \<noteq> [] then s\<lparr>cur_kalshiTicker := hd markets\<rparr> else s))"

text \<open>
  What the callbacks do with a snapshot: \<open>onPrices\<close> returns; it throws and
  \<open>onError\<close> is absent or returns; it throws and \<open>onError\<close> throws as well.
\<close>

datatype callback_outcome = CallbackReturns | CallbackThrowsHandled | CallbackThrowsAgain

text \<open>\<open>poll\<close> resumed after \<open>await getDualPrices(...)\<close>.\<close>

definition resume_dual ::
  "poll_config \<Rightarrow> int \<Rightarrow> error + DualMarketPrices \<Rightarrow> callback_outcome \<Rightarrow> int \<Rightarrow> scheduler
     \<Rightarrow> scheduler" where
  "resume_dual cfg startedAt result cb now' s =
     (case result of
        Inl e \<Rightarrow> finish s
      | Inr dual \<Rightarrow>
          if stopped s then finish s
          else (case cb of
                  CallbackThrowsAgain \<Rightarrow> finish (s\<lparr>delivered := delivered s @ [dual]\<rparr>)
                | _ \<Rightarrow>
                    finish (scheduleNext cfg startedAt now'
                              (s\<lparr>delivered := delivered s @ [dual]\<rparr>))))"

datatype event =
    TimerFires nat int string int
  | MarketsSettled nat "error + string list" int
  | DualSettled nat "error + DualMarketPrices" callback_outcome int
  | StopCalled

definition step :: "poll_config \<Rightarrow> scheduler \<Rightarrow> event \<Rightarrow> scheduler" where
  "step cfg s ev =
     (if exited s then s
      else case ev of
        TimerFires i now slot now' \<Rightarrow>
          if i < length (timers s)
          then poll cfg now slot now' (s\<lparr>timers := remove_nth i (timers s)\<rparr>)
          else s
      | MarketsSettled i result now' \<Rightarrow>
          if i < length (awaiting s) then
            (case awaiting s ! i of
               AwaitMarkets startedAt \<Rightarrow>
                 resume_markets cfg startedAt result now'
                   (s\<lparr>awaiting := remove_nth i (awaiting s)\<rparr>)
             | AwaitDual _ \<Rightarrow> s)
          else s
      | DualSettled i result cb now' \<Rightarrow>
          if i < length (awaiting s) then
            (case awaiting s ! i of
               AwaitDual startedAt \<Rightarrow>
                 resume_dual cfg startedAt result cb now'
                   (s\<lparr>awaiting := remove_nth i (awaiting s)\<rparr>)
             | AwaitMarkets _ \<Rightarrow> s)
          else s
      | StopCalled \<Rightarrow> s\<lparr>stopped := True\<rparr>)"

definition run_events :: "poll_config \<Rightarrow> scheduler \<Rightarrow> event list \<Rightarrow> scheduler" where
  "run_events cfg s evs = foldl (step cfg) s evs"

text \<open>The fetches in flight: the invocations of \<open>poll\<close> that await \<open>getDualPrices\<close>.\<close>

definition is_fetch :: "frame \<Rightarrow> bool" where
  "is_fetch f = (case f of AwaitDual _ \<Rightarrow> True | AwaitMarkets _ \<Rightarrow> False)"

definition in_flight :: "scheduler \<Rightarrow> nat" where
  "in_flight s = length (filter is_fetch (awaiting s))"

section \<open>Concrete configurations and inputs\<close>

text \<open>The configuration \<open>config.ts\<close> computes when the environment sets nothing.\<close>

definition default_config :: config where
  "default_config =
     \<lparr>ARB_SUM_THRESHOLD = parseFloat ''0.92'',
      ARB_SUM_LOW = parseFloat ''0.75'',
      ARB_PRICE_BUFFER = parseFloat ''0.01'',
      ARB_SIZE = parseFloat ''1'',
      ARB_DRY_RUN = False,
      BOT_DRY_RUN = False,
      POLYMARKET_PRIVATE_KEY = [],
      POLYMARKET_PROXY = [],
      POLYMARKET_MIN_USD = parseFloat ''1'',
      POLYMARKET_TICK_SIZE = ''0.01'',
      POLYMARKET_NEG_RISK = False\<rparr>"

text \<open>The same with Polymarket credentials and \<open>ARB_SIZE=3\<close> in the environment.\<close>

definition live_config :: config where
  "live_config =
     default_config\<lparr>POLYMARKET_PRIVATE_KEY := ''key'', POLYMARKET_PROXY := ''proxy'',
                    ARB_SIZE := parseFloat ''3''\<rparr>"

text \<open>
  A snapshot of the market \<open>KXBTC15M-1\<close> with both venues present: the Kalshi asks in
  cents, the Polymarket asks as the decimal texts of the order book.
\<close>

definition kalshi_prices :: "jsnum \<Rightarrow> jsnum \<Rightarrow> MarketPrices" where
  "kalshi_prices upCents downCents =
     \<lparr>ticker = ''KXBTC15M-1'', upAskCents = upCents, downAskCents = downCents,
      lastPriceCents = Finite 0, k_fetchedAt = 0\<rparr>"

definition polymarket_prices :: "string \<Rightarrow> string \<Rightarrow> PolymarketPrices" where
  "polymarket_prices pmUp pmDown =
     \<lparr>slug = ''btc-updown-15m-0'', upAsk = parseFloat pmUp, downAsk = parseFloat pmDown,
      pm_fetchedAt = 0\<rparr>"

definition snapshot :: "jsnum \<Rightarrow> jsnum \<Rightarrow> string \<Rightarrow> string \<Rightarrow> DualMarketPrices" where
  "snapshot upCents downCents pmUp pmDown =
     \<lparr>kalshiTicker = ''KXBTC15M-1'',
      kalshi = Some (kalshi_prices upCents downCents),
      polymarket = Some (polymarket_prices pmUp pmDown),
      fetchedAt = 0\<rparr>"

definition gamma_up_down :: "gamma_market fetched" where
  "gamma_up_down =
     HttpOk \<lparr>outcomes = RawString (Some [''Up'', ''Down'']),
             clobTokenIds = RawString (Some [''token-up'', ''token-down'']),
             conditionId = Some ''0xc''\<rparr>"

text \<open>Every venue accepts the order; every venue refuses it.\<close>

definition orders_accepted :: order_env where
  "orders_accepted =
     \<lparr>createOrder_answer = OrderCreated (Some ''k-1''), gamma_answer = gamma_up_down,
      clob_answer = ClobResponse (Some ''p-1'') None None\<rparr>"

definition orders_refused :: order_env where
  "orders_refused =
     \<lparr>createOrder_answer = CreateOrderThrows ''insufficient balance'',
      gamma_answer = gamma_up_down,
      clob_answer = ClobPostThrows ''Request failed'' None\<rparr>"

definition initial_process :: process_state where
  "initial_process = \<lparr>arb = initial_arb_state, tokenIdsCache = None\<rparr>"

text \<open>While an invocation of \<open>poll\<close> is suspended, it is the only one and the flag is set.\<close>

definition guarded :: "scheduler \<Rightarrow> bool" where
  "guarded s = (awaiting s = [] \<or> (length (awaiting s) = 1 \<and> pollInProgress s))"

text \<open>
  The two clock readings of the tick an event belongs to: \<open>startedAt\<close> of the
  invocation of \<open>poll\<close> that the event starts or resumes, and the reading that
  \<open>scheduleNext\<close> takes if the event reaches it.
\<close>

definition started_at :: "scheduler \<Rightarrow> event \<Rightarrow> int" where
  "started_at s ev =
     (case ev of
        TimerFires _ now _ _ \<Rightarrow> now
      | MarketsSettled i _ _ \<Rightarrow>
          (case awaiting s ! i of AwaitMarkets a \<Rightarrow> a | AwaitDual a \<Rightarrow> a)
      | DualSettled i _ _ _ \<Rightarrow>
          (case awaiting s ! i of AwaitMarkets a \<Rightarrow> a | AwaitDual a \<Rightarrow> a)
      | StopCalled \<Rightarrow> 0)"

definition scheduled_at :: "event \<Rightarrow> int" where
  "scheduled_at ev =
     (case ev of
        TimerFires _ _ _ now' \<Rightarrow> now'
      | MarketsSettled _ _ now' \<Rightarrow> now'
      | DualSettled _ _ _ now' \<Rightarrow> now'
      | StopCalled \<Rightarrow> 0)"

text \<open>
  The timers still pending once the event has taken its own: the timer that fires is
  removed from the list, every other event leaves the list as it is.
\<close>

definition pending_after :: "scheduler \<Rightarrow> event \<Rightarrow> int list" where
  "pending_after s ev =
     (case ev of
        TimerFires i _ _ _ \<Rightarrow>
          if \<not> exited s \<and> i < length (timers s) then remove_nth i (timers s) else timers s
      | _ \<Rightarrow> timers s)"

text \<open>
  A scheduler started with a fixed ticker and a poll interval of 200 ms, and the same
  with one invocation of \<open>poll\<close> awaiting its fetch while a second timer is pending.
\<close>

definition fixed_ticker_options :: monitor_options where
  "fixed_ticker_options =
     \<lparr>opt_kalshiTicker = Some ''KXBTC15M-1'', opt_polymarketMarket = None,
      opt_intervalMs = Some 200, opt_restartProcessOnQuarterHour = Some False\<rparr>"

definition fixed_ticker_config :: poll_config where
  "fixed_ticker_config =
     \<lparr>intervalMs = 200, useAutoRefresh = False, restartOnQuarterHour = False,
      polymarketMarket = ''btc''\<rparr>"

definition fresh_scheduler :: scheduler where
  "fresh_scheduler =
     \<lparr>cur_kalshiTicker = ''KXBTC15M-1'', lastSlot = ''2026-01-01_00-00'', stopped = False,
      pollInProgress = False, timers = [0], awaiting = [], delivered = [], exited = False\<rparr>"

definition busy_scheduler :: scheduler where
  "busy_scheduler =
     fresh_scheduler\<lparr>pollInProgress := True, timers := [7], awaiting := [AwaitDual 1000]\<rparr>"

text \<open>A filled token cache, order books, and answers of the two venues to a price read.\<close>

definition cached_entry :: cache_entry where
  "cached_entry =
     \<lparr>upTokenId = ''token-up'', downTokenId = ''token-down'',
      cached_slug = ''btc-updown-15m-0''\<rparr>"

definition book :: "string list \<Rightarrow> ask_level list option fetched" where
  "book prices = HttpOk (Some (map (\<lambda>p. \<lparr>price = p, size = ''10''\<rparr>) prices))"

text \<open>
  A time zone with the offset of UTC all year, and one that leaves daylight saving time
  (two hours ahead of UTC) for standard time (one hour ahead) at 01:00 UTC on
  25 October 2026, which is 1792890000000 ms after the epoch.
\<close>

definition utc_zone :: time_zone where
  "utc_zone = \<lparr>offset_at = (\<lambda>t. 0), offset_of_local = (\<lambda>t. 0)\<rparr>"


definition polymarket_up :: polymarket_env where
  "polymarket_up =
     \<lparr>pm_zone = utc_zone, pm_started = 0, gamma_reply = gamma_up_down,
      up_book_reply = book [''0.40'', ''0.38''], down_book_reply = book [''0.56'', ''0.48''],
      pm_finished = 120\<rparr>"

definition polymarket_unreachable :: polymarket_env where
  "polymarket_unreachable =
     \<lparr>pm_zone = utc_zone, pm_started = 0, gamma_reply = FetchRejects ''ECONNRESET'',
      up_book_reply = FetchRejects ''ECONNRESET'', down_book_reply = FetchRejects ''ECONNRESET'',
      pm_finished = 120\<rparr>"

definition kalshi_quotes :: kalshi_market where
  "kalshi_quotes =
     \<lparr>m_ticker = ''KXBTC15M-1'', yes_ask = Some (Finite 40), yes_ask_dollars = Some ''0.4000'',
      no_ask = Some (Finite 55), no_ask_dollars = Some ''0.5500'',
      last_price = Some (Finite 41), last_price_dollars = Some ''0.4100''\<rparr>"

text \<open>A market object without usable asks: fields missing, empty or not a number.\<close>

definition kalshi_no_asks :: kalshi_market where
  "kalshi_no_asks =
     \<lparr>m_ticker = ''KXBTC15M-1'', yes_ask = None, yes_ask_dollars = None,
      no_ask = None, no_ask_dollars = Some ''n/a'',
      last_price = None, last_price_dollars = Some []\<rparr>"

section \<open>Evaluation\<close>

text \<open>
  Concrete inputs are evaluated by rewriting with the definitions. The decimal texts used
  below are parsed once, to the binary64 values they denote.
\<close>

lemma floor_rat_numeral_div [simp]:
  "\<lfloor>numeral a / numeral b :: rat\<rfloor> = numeral a div numeral b"
  by (metis floor_divide_of_int_eq of_int_numeral)

lemmas fl_eval = fl_def fl_pos_def to_ulp_def binade_def binade_down.simps binade_up.simps
  pow2_def round_half_even_def

lemmas parse_eval = parseFloat_def parse_unsigned_def fraction_part_def exponent_part_def
  isDigit_def isWhiteSpace_def digits_value_def pow10_def

lemmas num_eval = js_div_def js_mul_def js_sign_def signed_infinity_def Math_round_def
  Math_max_def Math_min_def js_ge_def js_gt_def js_le_def isFinite_def js_neg_def

lemmas arb_eval = checkArbAndPlaceOrders_def arb_decide_def arb_submit_def inRange_def
  kUp_def kDown_def sumUp_def sumDown_def kalshiContracts_def polySize_def
  ARB_KALSHI_MIN_def ARB_POLY_MIN_def kalshi_failed_log_def poly_failed_log_def
  placeOrder_def placePolymarketOrder_def clob_post_def roundPriceToTickSize_def
  option_tickSize_def option_negRisk_def option_forcePlace_def minUsd_def nullish_def truthy_def
  getTokenIdsForSlugCached_def fetchTokenIdsForSlug_def parseJsonArray_def at_index_def

lemmas ex_eval = default_config_def live_config_def snapshot_def kalshi_prices_def
  polymarket_prices_def gamma_up_down_def
  orders_accepted_def orders_refused_def initial_process_def initial_arb_state_def

lemma parseFloat_facts:
  "parseFloat ''0.92'' = Finite (8286623314361713 / 9007199254740992)"
  "parseFloat ''0.75'' = Finite (3 / 4)"
  "parseFloat ''0.01'' = Finite (5764607523034235 / 576460752303423488)"
  "parseFloat ''1'' = Finite (1)"
  "parseFloat ''3'' = Finite (3)"
  "parseFloat ''0.38'' = Finite (3422735716801577 / 9007199254740992)"
  "parseFloat ''0.48'' = Finite (1080863910568919 / 2251799813685248)"
  "parseFloat ''0.88'' = Finite (7926335344172073 / 9007199254740992)"
  "parseFloat ''0.4'' = Finite (3602879701896397 / 9007199254740992)"
  "parseFloat ''0.49'' = Finite (2206763817411543 / 4503599627370496)"
  "parseFloat ''0.56'' = Finite (1261007895663739 / 2251799813685248)"
  "parseFloat ''0.40'' = Finite (3602879701896397 / 9007199254740992)"
  "parseFloat ''0.8'' = Finite (3602879701896397 / 4503599627370496)"
  "parseFloat ''0.41'' = Finite (7385903388887613 / 18014398509481984)"
  "parseFloat ''0.81'' = Finite (1823957849085051 / 2251799813685248)"
  by (simp_all add: parse_eval fl_eval)

section \<open>Comparisons\<close>

lemma js_lt_irrefl [simp]: "\<not> js_lt x x"
  by (cases x) auto

lemma js_lt_left: "js_lt s h \<Longrightarrow> s \<noteq> NaN \<and> s \<noteq> PosInfinity"
  by (cases s; cases h) auto

lemma js_ge_NegInfinity: "js_ge NegInfinity l \<Longrightarrow> l = NegInfinity"
  by (cases l) (auto simp: js_ge_def)

lemma inRange_iff:
  "ARB_SUM_LOW cfg \<noteq> NegInfinity \<Longrightarrow>
   inRange cfg s \<longleftrightarrow> js_le (ARB_SUM_LOW cfg) s \<and> js_lt s (ARB_SUM_THRESHOLD cfg)"
  unfolding inRange_def js_le_def
  by (cases s) (auto simp: isFinite_def dest: js_lt_left js_ge_NegInfinity)

lemma inRange_upper: "\<not> inRange cfg (ARB_SUM_THRESHOLD cfg)"
  by (simp add: inRange_def)

lemma inRange_lower:
  "isFinite (ARB_SUM_LOW cfg) \<Longrightarrow> js_lt (ARB_SUM_LOW cfg) (ARB_SUM_THRESHOLD cfg) \<Longrightarrow>
   inRange cfg (ARB_SUM_LOW cfg)"
  by (cases "ARB_SUM_LOW cfg") (auto simp: inRange_def js_ge_def isFinite_def)

section \<open>The detector\<close>

lemma arb_decide_absent:
  "kalshi p = None \<or> polymarket p = None \<Longrightarrow> arb_decide cfg st p = (st, [], None)"
  by (auto simp: arb_decide_def split: option.splits)

lemma arb_decide_outside:
  "kalshi p = Some k \<Longrightarrow> polymarket p = Some pm \<Longrightarrow> \<not> inRange cfg (sumUp k pm) \<Longrightarrow>
   \<not> inRange cfg (sumDown k pm) \<Longrightarrow> arb_decide cfg st p = (st, [], None)"
  by (simp add: arb_decide_def)

lemma checkArb_outside:
  "kalshi p = Some k \<Longrightarrow> polymarket p = Some pm \<Longrightarrow> \<not> inRange cfg (sumUp k pm) \<Longrightarrow>
   \<not> inRange cfg (sumDown k pm) \<Longrightarrow> checkArbAndPlaceOrders cfg env s p = (s, [], None)"
  by (simp add: checkArbAndPlaceOrders_def arb_decide_outside)

lemma checkArb_absent:
  "kalshi p = None \<or> polymarket p = None \<Longrightarrow>
   checkArbAndPlaceOrders cfg env s p = (s, [], None)"
  by (simp add: checkArbAndPlaceOrders_def arb_decide_absent)

lemma arb_decide_fresh_fires:
  "kalshi p = Some k \<Longrightarrow> polymarket p = Some pm \<Longrightarrow>
   kalshiTicker p \<notin> upArbDoneTickers st \<Longrightarrow> kalshiTicker p \<notin> downArbDoneTickers st \<Longrightarrow>
   fst (snd (arb_decide cfg st p)) \<noteq> [] \<longleftrightarrow> inRange cfg (sumUp k pm) \<or> inRange cfg (sumDown k pm)"
  by (simp add: arb_decide_def)

text \<open>The second spec scenario: leg 1 fires, with every order accepted.\<close>

lemma eval_leg1_accepted:
  "checkArbAndPlaceOrders live_config orders_accepted initial_process
     (snapshot (Finite 40) (Finite 55) ''0.38'' ''0.48'')
   = (\<lparr>arb = \<lparr>upArbDoneTickers = {''KXBTC15M-1''}, downArbDoneTickers = {}\<rparr>,
       tokenIdsCache = Some \<lparr>upTokenId = ''token-up'', downTokenId = ''token-down'',
                               cached_slug = ''btc-updown-15m-0''\<rparr>\<rparr>,
      [Console (ArbOpportunity Yes (parseFloat ''0.88'') (parseFloat ''0.4'') (parseFloat ''0.48'')
                  False (Finite 41) (parseFloat ''0.49'')),
       MonitorLog (ArbOpportunity Yes (parseFloat ''0.88'') (parseFloat ''0.4'')
                  (parseFloat ''0.48'') False (Finite 41) (parseFloat ''0.49'')),
       Kalshi_createOrder ''KXBTC15M-1'' Yes (Finite 3) (Finite 41),
       Console (OrderPlaced ''k-1'' ''KXBTC15M-1'' Yes (Finite 3) (Finite 41)),
       MonitorLog (OrderPlaced ''k-1'' ''KXBTC15M-1'' Yes (Finite 3) (Finite 41)),
       Gamma_fetch ''btc-updown-15m-0'',
       Clob_createAndPostOrder ''token-down'' (parseFloat ''0.49'') (Finite 3) ''0.01'' False,
       Console (PolymarketOrderPlaced ''p-1'' ''token-down'' (parseFloat ''0.49'') (Finite 3)),
       MonitorLog (PolymarketOrderPlaced ''p-1'' ''token-down'' (parseFloat ''0.49'') (Finite 3))],
      None)"
  by (simp add: arb_eval ex_eval num_eval parseFloat_facts fl_eval)

text \<open>C4: with the Kalshi field or the Polymarket field of the snapshot absent,
  \<open>checkArbAndPlaceOrders\<close> returns at once: the two sets and the token cache are as
  before, nothing is logged and no order is submitted.\<close>

theorem absent_venue_no_effect:
  "kalshi p = None \<or> polymarket p = None \<Longrightarrow>
   checkArbAndPlaceOrders cfg env s p = (s, [], None)"
  by (rule checkArb_absent)

theorem absent_venue_no_effect_witness:
  "fst (snd (checkArbAndPlaceOrders live_config orders_accepted initial_process
               (snapshot (Finite 40) (Finite 55) ''0.38'' ''0.48''))) \<noteq> []
   \<and> checkArbAndPlaceOrders live_config orders_accepted initial_process
        ((snapshot (Finite 40) (Finite 55) ''0.38'' ''0.48'')\<lparr>polymarket := None\<rparr>)
      = (initial_process, [], None)
   \<and> checkArbAndPlaceOrders live_config orders_accepted initial_process
        ((snapshot (Finite 40) (Finite 55) ''0.38'' ''0.48'')\<lparr>kalshi := None\<rparr>)
      = (initial_process, [], None)"
  using
    absent_venue_no_effect [of "(snapshot (Finite 40) (Finite 55) ''0.38'' ''0.48'')\<lparr>polymarket := None\<rparr>"
      live_config orders_accepted initial_process]
    absent_venue_no_effect [of "(snapshot (Finite 40) (Finite 55) ''0.38'' ''0.48'')\<lparr>kalshi := None\<rparr>"
      live_config orders_accepted initial_process]
  by (simp add: eval_leg1_accepted)
lemma eval_leg1_refused:
  "checkArbAndPlaceOrders live_config orders_refused initial_process
     (snapshot (Finite 40) (Finite 55) ''0.38'' ''0.48'')
   = (\<lparr>arb = \<lparr>upArbDoneTickers = {''KXBTC15M-1''}, downArbDoneTickers = {}\<rparr>,
       tokenIdsCache = Some \<lparr>upTokenId = ''token-up'', downTokenId = ''token-down'',
                               cached_slug = ''btc-updown-15m-0''\<rparr>\<rparr>,
      [Console (ArbOpportunity Yes (parseFloat ''0.88'') (parseFloat ''0.4'') (parseFloat ''0.48'')
                  False (Finite 41) (parseFloat ''0.49'')),
       MonitorLog (ArbOpportunity Yes (parseFloat ''0.88'') (parseFloat ''0.4'')
                  (parseFloat ''0.48'') False (Finite 41) (parseFloat ''0.49'')),
       Kalshi_createOrder ''KXBTC15M-1'' Yes (Finite 3) (Finite 41),
       Console (OrderFailed ''KXBTC15M-1'' ''insufficient balance''),
       MonitorLog (OrderFailed ''KXBTC15M-1'' ''insufficient balance''),
       Gamma_fetch ''btc-updown-15m-0'',
       MonitorLog (ArbKalshiOrderFailed ''insufficient balance''),
       Clob_createAndPostOrder ''token-down'' (parseFloat ''0.49'') (Finite 3) ''0.01'' False,
       Console (PolymarketOrderFailed ''Request failed''),
       MonitorLog (PolymarketOrderFailed ''Request failed''),
       MonitorLog (ArbPolymarketOrderFailed ''Request failed'')],
      None)"
  by (simp add: arb_eval ex_eval num_eval parseFloat_facts fl_eval)

text \<open>The same snapshot again, on the state the first call left.\<close>

lemma eval_leg1_again:
  "checkArbAndPlaceOrders live_config orders_accepted
     \<lparr>arb = \<lparr>upArbDoneTickers = {''KXBTC15M-1''}, downArbDoneTickers = {}\<rparr>,
       tokenIdsCache = Some \<lparr>upTokenId = ''token-up'', downTokenId = ''token-down'',
                               cached_slug = ''btc-updown-15m-0''\<rparr>\<rparr>
     (snapshot (Finite 40) (Finite 55) ''0.38'' ''0.48'')
   = (\<lparr>arb = \<lparr>upArbDoneTickers = {''KXBTC15M-1''}, downArbDoneTickers = {}\<rparr>,
       tokenIdsCache = Some \<lparr>upTokenId = ''token-up'', downTokenId = ''token-down'',
                               cached_slug = ''btc-updown-15m-0''\<rparr>\<rparr>, [], None)"
  by (simp add: arb_eval ex_eval num_eval parseFloat_facts fl_eval)

text \<open>Leg 1 out of the band (0.96), leg 2 within it (0.80).\<close>

lemma eval_leg2:
  "checkArbAndPlaceOrders live_config orders_accepted initial_process
     (snapshot (Finite 40) (Finite 40) ''0.40'' ''0.56'')
   = (\<lparr>arb = \<lparr>upArbDoneTickers = {}, downArbDoneTickers = {''KXBTC15M-1''}\<rparr>,
       tokenIdsCache = Some \<lparr>upTokenId = ''token-up'', downTokenId = ''token-down'',
                               cached_slug = ''btc-updown-15m-0''\<rparr>\<rparr>,
      [Console (ArbOpportunity No (parseFloat ''0.8'') (parseFloat ''0.4'') (parseFloat ''0.40'')
                  False (Finite 41) (Finite (3692951694443807 / 9007199254740992))),
       MonitorLog (ArbOpportunity No (parseFloat ''0.8'') (parseFloat ''0.4'')
                  (parseFloat ''0.40'') False (Finite 41)
                  (Finite (3692951694443807 / 9007199254740992))),
       Kalshi_createOrder ''KXBTC15M-1'' No (Finite 3) (Finite 41),
       Console (OrderPlaced ''k-1'' ''KXBTC15M-1'' No (Finite 3) (Finite 41)),
       MonitorLog (OrderPlaced ''k-1'' ''KXBTC15M-1'' No (Finite 3) (Finite 41)),
       Gamma_fetch ''btc-updown-15m-0'',
       Clob_createAndPostOrder ''token-up'' (parseFloat ''0.41'') (Finite 3) ''0.01'' False,
       Console (PolymarketOrderPlaced ''p-1'' ''token-up'' (parseFloat ''0.41'') (Finite 3)),
       MonitorLog (PolymarketOrderPlaced ''p-1'' ''token-up'' (parseFloat ''0.41'') (Finite 3))],
      None)"
  by (simp add: arb_eval ex_eval num_eval parseFloat_facts fl_eval)

text \<open>The first spec scenario: both sums above the band (0.96 and 0.93).\<close>

lemma eval_none:
  "checkArbAndPlaceOrders live_config orders_accepted initial_process
     (snapshot (Finite 40) (Finite 55) ''0.38'' ''0.56'') = (initial_process, [], None)"
  by (simp add: arb_eval ex_eval num_eval parseFloat_facts fl_eval)

lemma eval_sums:
  "sumUp (kalshi_prices (Finite 40) (Finite 55)) (polymarket_prices ''0.38'' ''0.48'')
     = parseFloat ''0.88''"
  "sumUp (kalshi_prices (Finite 40) (Finite 55)) (polymarket_prices ''0.38'' ''0.56'')
     = Finite (8646911284551353 / 9007199254740992)"
  "sumDown (kalshi_prices (Finite 40) (Finite 55)) (polymarket_prices ''0.38'' ''0.56'')
     = Finite (8376695306909123 / 9007199254740992)"
  "sumUp (kalshi_prices (Finite 40) (Finite 40)) (polymarket_prices ''0.40'' ''0.56'')
     = Finite (8646911284551353 / 9007199254740992)"
  "sumDown (kalshi_prices (Finite 40) (Finite 40)) (polymarket_prices ''0.40'' ''0.56'')
     = parseFloat ''0.8''"
  by (simp_all add: arb_eval ex_eval num_eval parseFloat_facts fl_eval)

lemma eval_inRange:
  "inRange live_config (parseFloat ''0.88'')"
  "inRange live_config (parseFloat ''0.8'')"
  "inRange live_config (parseFloat ''0.75'')"
  "\<not> inRange live_config (parseFloat ''0.92'')"
  "\<not> inRange live_config (Finite (8646911284551353 / 9007199254740992))"
  "\<not> inRange live_config (Finite (8376695306909123 / 9007199254740992))"
  "\<not> inRange live_config (Finite (7499 / 10000))"
  by (simp_all add: inRange_def ex_eval num_eval parseFloat_facts)

lemma live_config_thresholds:
  "ARB_SUM_LOW live_config = parseFloat ''0.75''"
  "ARB_SUM_THRESHOLD live_config = parseFloat ''0.92''"
  "ARB_PRICE_BUFFER live_config = parseFloat ''0.01''"
  by (simp_all add: ex_eval)

lemma checkArb_effects_nonempty:
  "fst (snd (checkArbAndPlaceOrders cfg env s p)) \<noteq> []
     \<longleftrightarrow> fst (snd (arb_decide cfg (arb s) p)) \<noteq> []"
  by (auto simp: checkArbAndPlaceOrders_def arb_decide_def split: prod.splits option.splits)

lemma checkArb_state:
  "arb (fst (checkArbAndPlaceOrders cfg env s p)) = fst (arb_decide cfg (arb s) p)"
  by (auto simp: checkArbAndPlaceOrders_def split: prod.splits option.splits)

lemma arb_decide_up_iff:
  "kalshi p = Some k \<Longrightarrow> polymarket p = Some pm \<Longrightarrow> kalshiTicker p \<notin> upArbDoneTickers st \<Longrightarrow>
   kalshiTicker p \<in> upArbDoneTickers (fst (arb_decide cfg st p)) \<longleftrightarrow> inRange cfg (sumUp k pm)"
  by (simp add: arb_decide_def)

lemma arb_decide_down_iff:
  "kalshi p = Some k \<Longrightarrow> polymarket p = Some pm \<Longrightarrow> kalshiTicker p \<notin> downArbDoneTickers st \<Longrightarrow>
   kalshiTicker p \<in> downArbDoneTickers (fst (arb_decide cfg st p))
     \<longleftrightarrow> \<not> inRange cfg (sumUp k pm) \<and> inRange cfg (sumDown k pm)"
  by (simp add: arb_decide_def)

text \<open>C2: a sum qualifies exactly when it lies in the half-open band from
  \<open>ARB_SUM_LOW\<close> (included) to \<open>ARB_SUM_THRESHOLD\<close> (excluded), the comparisons being
  those of JavaScript: the threshold itself never qualifies, the lower bound does (when
  it is a number below the threshold), and a tick whose two sums are both outside the
  band causes no action. On a market that has not fired yet, leg 1 fires exactly when
  its sum qualifies, and leg 2 exactly when its sum qualifies and that of leg 1 does
  not.\<close>

theorem inRange_half_open:
  assumes "ARB_SUM_LOW cfg \<noteq> NegInfinity"
    and "kalshi p = Some k" and "polymarket p = Some pm"
  shows "(inRange cfg s \<longleftrightarrow> js_le (ARB_SUM_LOW cfg) s \<and> js_lt s (ARB_SUM_THRESHOLD cfg))
    \<and> \<not> inRange cfg (ARB_SUM_THRESHOLD cfg)
    \<and> (isFinite (ARB_SUM_LOW cfg) \<and> js_lt (ARB_SUM_LOW cfg) (ARB_SUM_THRESHOLD cfg)
         \<longrightarrow> inRange cfg (ARB_SUM_LOW cfg))
    \<and> (\<not> inRange cfg (sumUp k pm) \<and> \<not> inRange cfg (sumDown k pm)
         \<longrightarrow> checkArbAndPlaceOrders cfg env st p = (st, [], None))
    \<and> (kalshiTicker p \<notin> upArbDoneTickers (arb st)
         \<longrightarrow> (kalshiTicker p \<in> upArbDoneTickers (arb (fst (checkArbAndPlaceOrders cfg env st p)))
                \<longleftrightarrow> inRange cfg (sumUp k pm)))
    \<and> (kalshiTicker p \<notin> downArbDoneTickers (arb st)
         \<longrightarrow> (kalshiTicker p \<in> downArbDoneTickers (arb (fst (checkArbAndPlaceOrders cfg env st p)))
                \<longleftrightarrow> \<not> inRange cfg (sumUp k pm) \<and> inRange cfg (sumDown k pm)))"
proof (intro conjI)
  show "inRange cfg s \<longleftrightarrow> js_le (ARB_SUM_LOW cfg) s \<and> js_lt s (ARB_SUM_THRESHOLD cfg)"
    using assms(1) by (rule inRange_iff)
  show "\<not> inRange cfg (ARB_SUM_THRESHOLD cfg)"
    by (rule inRange_upper)
  show "isFinite (ARB_SUM_LOW cfg) \<and> js_lt (ARB_SUM_LOW cfg) (ARB_SUM_THRESHOLD cfg)
         \<longrightarrow> inRange cfg (ARB_SUM_LOW cfg)"
    by (simp add: inRange_lower)
  show "\<not> inRange cfg (sumUp k pm) \<and> \<not> inRange cfg (sumDown k pm)
         \<longrightarrow> checkArbAndPlaceOrders cfg env st p = (st, [], None)"
    using assms(2,3) by (simp add: checkArb_outside)
  show "kalshiTicker p \<notin> upArbDoneTickers (arb st)
         \<longrightarrow> (kalshiTicker p \<in> upArbDoneTickers (arb (fst (checkArbAndPlaceOrders cfg env st p)))
                \<longleftrightarrow> inRange cfg (sumUp k pm))"
    using assms(2,3) by (simp add: checkArb_state arb_decide_up_iff)
  show "kalshiTicker p \<notin> downArbDoneTickers (arb st)
         \<longrightarrow> (kalshiTicker p \<in> downArbDoneTickers (arb (fst (checkArbAndPlaceOrders cfg env st p)))
                \<longleftrightarrow> \<not> inRange cfg (sumUp k pm) \<and> inRange cfg (sumDown k pm))"
    using assms(2,3) by (simp add: checkArb_state arb_decide_down_iff)
qed

theorem inRange_half_open_witness:
  "inRange live_config (parseFloat ''0.88'')
   \<and> \<not> inRange live_config (parseFloat ''0.92'')
   \<and> inRange live_config (parseFloat ''0.75'')
   \<and> checkArbAndPlaceOrders live_config orders_accepted initial_process
        (snapshot (Finite 40) (Finite 55) ''0.38'' ''0.56'') = (initial_process, [], None)
   \<and> ''KXBTC15M-1'' \<in> upArbDoneTickers (arb (fst (checkArbAndPlaceOrders live_config
        orders_accepted initial_process (snapshot (Finite 40) (Finite 55) ''0.38'' ''0.48''))))
   \<and> ''KXBTC15M-1'' \<in> downArbDoneTickers (arb (fst (checkArbAndPlaceOrders live_config
        orders_accepted initial_process (snapshot (Finite 40) (Finite 40) ''0.40'' ''0.56''))))"
proof -
  have low: "ARB_SUM_LOW live_config \<noteq> NegInfinity"
    by (simp add: live_config_thresholds parseFloat_facts)
  have k: "\<And>a b c d. kalshi (snapshot a b c d) = Some (kalshi_prices a b)"
    and pm: "\<And>a b c d. polymarket (snapshot a b c d) = Some (polymarket_prices c d)"
    by (simp_all add: snapshot_def)
  note none = inRange_half_open [OF low k pm, of "parseFloat ''0.88''" "Finite 40" "Finite 55"
      "''0.38''" "''0.56''" orders_accepted initial_process]
  note leg1 = inRange_half_open [OF low k pm, of "parseFloat ''0.92''" "Finite 40" "Finite 55"
      "''0.38''" "''0.48''" orders_accepted initial_process]
  note leg2 = inRange_half_open [OF low k pm, of "parseFloat ''0.75''" "Finite 40" "Finite 40"
      "''0.40''" "''0.56''" orders_accepted initial_process]
  have fresh: "\<And>a b c d. kalshiTicker (snapshot a b c d) \<notin> upArbDoneTickers (arb initial_process)"
    "\<And>a b c d. kalshiTicker (snapshot a b c d) \<notin> downArbDoneTickers (arb initial_process)"
    by (simp_all add: snapshot_def initial_process_def initial_arb_state_def)
  have ticker: "\<And>a b c d. kalshiTicker (snapshot a b c d) = ''KXBTC15M-1''"
    by (simp add: snapshot_def)
  from none leg1 leg2 show ?thesis
    using fresh by (simp add: eval_sums eval_inRange live_config_thresholds ticker)
qed

text \<open>C3, as the spec states it, fails: with leg 1 out of the band (0.40 + 0.56) and
  leg 2 within it (0.40 + 0.40), the same call goes on to leg 2 and fires it.\<close>

theorem leg2_evaluated_same_tick_counterexample:
  "kalshi (snapshot (Finite 40) (Finite 40) ''0.40'' ''0.56'')
     = Some (kalshi_prices (Finite 40) (Finite 40))
   \<and> polymarket (snapshot (Finite 40) (Finite 40) ''0.40'' ''0.56'')
     = Some (polymarket_prices ''0.40'' ''0.56'')
   \<and> \<not> inRange live_config
         (sumUp (kalshi_prices (Finite 40) (Finite 40)) (polymarket_prices ''0.40'' ''0.56''))
   \<and> downArbDoneTickers (arb initial_process) = {}
   \<and> downArbDoneTickers (arb (fst (checkArbAndPlaceOrders live_config orders_accepted
        initial_process (snapshot (Finite 40) (Finite 40) ''0.40'' ''0.56'')))) = {''KXBTC15M-1''}
   \<and> list_ex (is_kalshi_order ''KXBTC15M-1'' No)
        (fst (snd (checkArbAndPlaceOrders live_config orders_accepted initial_process
           (snapshot (Finite 40) (Finite 40) ''0.40'' ''0.56''))))"
  by (simp add: eval_leg2 eval_sums eval_inRange is_kalshi_order_def)
     (simp add: snapshot_def initial_process_def initial_arb_state_def)

section \<open>One leg per tick\<close>

lemma arb_decide_plan:
  assumes "arb_decide cfg st p = (st', fx, Some lo)"
  shows "plan_ticker lo = kalshiTicker p"
    and "plan_side lo = Yes \<Longrightarrow> kalshiTicker p \<notin> upArbDoneTickers st"
    and "plan_side lo = No \<Longrightarrow> kalshiTicker p \<notin> downArbDoneTickers st"
    and "plan_ticker lo
           \<in> (case plan_side lo of Yes \<Rightarrow> upArbDoneTickers st' | No \<Rightarrow> downArbDoneTickers st')"
  using assms
  by (auto simp: arb_decide_def split: option.splits if_splits)

lemma arb_decide_plan_leg1:
  "arb_decide cfg st p = (st', fx, Some lo) \<Longrightarrow> kalshi p = Some k \<Longrightarrow>
   polymarket p = Some pm \<Longrightarrow> inRange cfg (sumUp k pm) \<Longrightarrow> plan_side lo = Yes"
  by (auto simp: arb_decide_def split: if_splits)

lemma arb_decide_mono:
  assumes "arb_decide cfg st p = (st', fx, r)"
  shows "upArbDoneTickers st \<subseteq> upArbDoneTickers st'"
    and "downArbDoneTickers st \<subseteq> downArbDoneTickers st'"
  using assms
  by (auto simp: arb_decide_def split: option.splits if_splits)

lemma arb_decide_one_set:
  "upArbDoneTickers (fst (arb_decide cfg st p)) = upArbDoneTickers st
   \<or> downArbDoneTickers (fst (arb_decide cfg st p)) = downArbDoneTickers st"
  by (auto simp: arb_decide_def split: option.splits if_splits)

lemma arb_decide_leg1_down:
  "kalshi p = Some k \<Longrightarrow> polymarket p = Some pm \<Longrightarrow> inRange cfg (sumUp k pm) \<Longrightarrow>
   downArbDoneTickers (fst (arb_decide cfg st p)) = downArbDoneTickers st"
  by (simp add: arb_decide_def)

lemma arb_decide_leg1_independent:
  "kalshi p = Some k \<Longrightarrow> polymarket p = Some pm \<Longrightarrow> inRange cfg (sumUp k pm) \<Longrightarrow>
   upAskCents k' = upAskCents k \<Longrightarrow> downAsk pm' = downAsk pm \<Longrightarrow> slug pm' = slug pm \<Longrightarrow>
   arb_decide cfg st (p\<lparr>kalshi := Some k', polymarket := Some pm'\<rparr>) = arb_decide cfg st p"
  by (simp add: arb_decide_def sumUp_def kUp_def)

lemma arb_decide_no_orders:
  assumes "arb_decide cfg st p = (st', fx, r)"
  shows "filter is_kalshi_submission fx = [] \<and> filter is_polymarket_submission fx = []"
  using assms
  by (auto simp: arb_decide_def is_kalshi_submission_def is_polymarket_submission_def
      split: option.splits if_splits)

lemma placeOrder_live:
  "placeOrder cfg outcome t sd n pc (Some True) = (r, fx) \<Longrightarrow>
   filter is_kalshi_submission fx
     = [Kalshi_createOrder t sd n (Math_max (Finite 1) (Math_min (Finite 99) pc))]
   \<and> filter is_polymarket_submission fx = []"
  by (auto simp: placeOrder_def nullish_def is_kalshi_submission_def is_polymarket_submission_def
      split: createOrder_outcome.splits)

lemma getTokenIds_no_orders:
  "getTokenIdsForSlugCached c sl reply = (c', fx, r) \<Longrightarrow>
   filter is_kalshi_submission fx = [] \<and> filter is_polymarket_submission fx = []"
  by (auto simp: getTokenIdsForSlugCached_def is_kalshi_submission_def is_polymarket_submission_def
      split: option.splits if_splits sum.splits)

lemma placePolymarketOrder_orders:
  "placePolymarketOrder cfg outcome tok pr sz opts = (r, fx) \<Longrightarrow>
   filter is_kalshi_submission fx = [] \<and> length (filter is_polymarket_submission fx) \<le> 1"
  by (auto simp: placePolymarketOrder_def clob_post_def is_kalshi_submission_def
      is_polymarket_submission_def split: if_splits clob_outcome.splits)

lemma failed_logs_no_orders [simp]:
  "filter is_kalshi_submission (kalshi_failed_log r) = []"
  "filter is_polymarket_submission (kalshi_failed_log r) = []"
  "filter is_kalshi_submission (poly_failed_log r') = []"
  "filter is_polymarket_submission (poly_failed_log r') = []"
  by (auto simp: kalshi_failed_log_def poly_failed_log_def is_kalshi_submission_def
      is_polymarket_submission_def split: order_result.splits option.splits)

lemma arb_submit_orders:
  assumes "arb_submit cfg env c lo = (c', fx, r)"
  shows "filter is_kalshi_submission fx
           = [Kalshi_createOrder (plan_ticker lo) (plan_side lo) (plan_contracts lo)
                (Math_max (Finite 1) (Math_min (Finite 99) (plan_kalshiPriceCents lo)))]
         \<and> length (filter is_polymarket_submission fx) \<le> 1"
  using assms
  by (auto simp: arb_submit_def split: prod.splits sum.splits
      dest!: placeOrder_live getTokenIds_no_orders placePolymarketOrder_orders)

lemma checkArb_orders:
  assumes "checkArbAndPlaceOrders cfg env s p = (s', fx, r)"
  shows "length (filter is_kalshi_submission fx) \<le> 1
       \<and> length (filter is_polymarket_submission fx) \<le> length (filter is_kalshi_submission fx)"
  using assms
  by (auto simp: checkArbAndPlaceOrders_def split: prod.splits option.splits
      dest!: arb_submit_orders arb_decide_no_orders)

lemma is_kalshi_order_submission:
  "is_kalshi_order t sd e \<Longrightarrow> is_kalshi_submission e"
  by (cases e) (auto simp: is_kalshi_order_def is_kalshi_submission_def)

lemma list_ex_kalshi_order:
  "list_ex (is_kalshi_order t sd) fx \<Longrightarrow>
   \<exists>e \<in> set (filter is_kalshi_submission fx). is_kalshi_order t sd e"
  by (auto simp: list_ex_iff dest: is_kalshi_order_submission)

text \<open>A Kalshi order among the effects of a call is the order of the plan of that call.\<close>

lemma checkArb_kalshi_order_plan:
  assumes "checkArbAndPlaceOrders cfg env s p = (s', fx, r)"
    and "list_ex (is_kalshi_order t sd) fx"
  shows "\<exists>fx0 lo. arb_decide cfg (arb s) p = (arb s', fx0, Some lo)
           \<and> plan_ticker lo = t \<and> plan_side lo = sd"
proof -
  obtain st' fx0 pl where d: "arb_decide cfg (arb s) p = (st', fx0, pl)"
    by (cases "arb_decide cfg (arb s) p")
  from list_ex_kalshi_order [OF assms(2)]
  obtain e where e: "e \<in> set (filter is_kalshi_submission fx)" "is_kalshi_order t sd e"
    by blast
  show ?thesis
  proof (cases pl)
    case None
    with assms(1) d have "fx = fx0" by (simp add: checkArbAndPlaceOrders_def)
    with arb_decide_no_orders [OF d] e show ?thesis by simp
  next
    case (Some lo)
    obtain c' fx1 r1 where sub: "arb_submit cfg env (tokenIdsCache s) lo = (c', fx1, r1)"
      by (cases "arb_submit cfg env (tokenIdsCache s) lo")
    from assms(1) d Some sub have fx: "fx = fx0 @ fx1" and s': "arb s' = st'"
      by (auto simp: checkArbAndPlaceOrders_def)
    from fx arb_decide_no_orders [OF d] arb_submit_orders [OF sub] e
    have "e = Kalshi_createOrder (plan_ticker lo) (plan_side lo) (plan_contracts lo)
                (Math_max (Finite 1) (Math_min (Finite 99) (plan_kalshiPriceCents lo)))"
      by simp
    with e(2) have "plan_ticker lo = t" "plan_side lo = sd"
      by (simp_all add: is_kalshi_order_def)
    with d Some s' show ?thesis by simp
  qed
qed

lemma checkArb_kalshi_order:
  assumes "checkArbAndPlaceOrders cfg env s p = (s', fx, r)"
    and "list_ex (is_kalshi_order t sd) fx"
  shows "t \<notin> done_set sd s \<and> t \<in> done_set sd s'"
proof -
  from checkArb_kalshi_order_plan [OF assms]
  obtain fx0 lo where d: "arb_decide cfg (arb s) p = (arb s', fx0, Some lo)"
    and ts: "plan_ticker lo = t" "plan_side lo = sd"
    by blast
  from arb_decide_plan [OF d] ts show ?thesis
    by (cases sd) (auto simp: done_set_def)
qed

lemma checkArb_leg1_no_leg2_order:
  assumes "kalshi p = Some k" and "polymarket p = Some pm" and "inRange cfg (sumUp k pm)"
  shows "\<not> list_ex (is_kalshi_order t No) (fst (snd (checkArbAndPlaceOrders cfg env s p)))"
proof
  assume ex: "list_ex (is_kalshi_order t No) (fst (snd (checkArbAndPlaceOrders cfg env s p)))"
  obtain s' fx r where c: "checkArbAndPlaceOrders cfg env s p = (s', fx, r)"
    by (cases "checkArbAndPlaceOrders cfg env s p")
  with ex have "list_ex (is_kalshi_order t No) fx" by simp
  from checkArb_kalshi_order_plan [OF c this]
  obtain fx0 lo where d: "arb_decide cfg (arb s) p = (arb s', fx0, Some lo)"
    and "plan_side lo = No"
    by blast
  with arb_decide_plan_leg1 [OF d assms] show False by simp
qed

lemma checkArb_leg1_independent:
  assumes "kalshi p = Some k" and "polymarket p = Some pm" and "inRange cfg (sumUp k pm)"
    and "upAskCents k' = upAskCents k" and "downAsk pm' = downAsk pm" and "slug pm' = slug pm"
  shows "checkArbAndPlaceOrders cfg env s (p\<lparr>kalshi := Some k', polymarket := Some pm'\<rparr>)
           = checkArbAndPlaceOrders cfg env s p"
  by (simp add: checkArbAndPlaceOrders_def arb_decide_leg1_independent [OF assms])

lemma checkArb_mono:
  "done_set sd s \<subseteq> done_set sd (fst (checkArbAndPlaceOrders cfg env s p))"
proof -
  obtain st' fx0 pl where d: "arb_decide cfg (arb s) p = (st', fx0, pl)"
    by (cases "arb_decide cfg (arb s) p")
  then have "arb (fst (checkArbAndPlaceOrders cfg env s p)) = st'"
    by (simp add: checkArb_state)
  with arb_decide_mono [OF d] show ?thesis
    by (cases sd) (simp_all add: done_set_def)
qed

text \<open>Both sums within the band (0.88 and 0.80): leg 1 fires, leg 2 is not looked at.\<close>

lemma eval_both_in_band:
  "checkArbAndPlaceOrders live_config orders_accepted initial_process
     (snapshot (Finite 40) (Finite 40) ''0.40'' ''0.48'')
   = (\<lparr>arb = \<lparr>upArbDoneTickers = {''KXBTC15M-1''}, downArbDoneTickers = {}\<rparr>,
       tokenIdsCache = Some \<lparr>upTokenId = ''token-up'', downTokenId = ''token-down'',
                               cached_slug = ''btc-updown-15m-0''\<rparr>\<rparr>,
      [Console (ArbOpportunity Yes (parseFloat ''0.88'') (parseFloat ''0.4'') (parseFloat ''0.48'')
                  False (Finite 41) (parseFloat ''0.49'')),
       MonitorLog (ArbOpportunity Yes (parseFloat ''0.88'') (parseFloat ''0.4'')
                  (parseFloat ''0.48'') False (Finite 41) (parseFloat ''0.49'')),
       Kalshi_createOrder ''KXBTC15M-1'' Yes (Finite 3) (Finite 41),
       Console (OrderPlaced ''k-1'' ''KXBTC15M-1'' Yes (Finite 3) (Finite 41)),
       MonitorLog (OrderPlaced ''k-1'' ''KXBTC15M-1'' Yes (Finite 3) (Finite 41)),
       Gamma_fetch ''btc-updown-15m-0'',
       Clob_createAndPostOrder ''token-down'' (parseFloat ''0.49'') (Finite 3) ''0.01'' False,
       Console (PolymarketOrderPlaced ''p-1'' ''token-down'' (parseFloat ''0.49'') (Finite 3)),
       MonitorLog (PolymarketOrderPlaced ''p-1'' ''token-down'' (parseFloat ''0.49'') (Finite 3))],
      None)"
  by (simp add: arb_eval ex_eval num_eval parseFloat_facts fl_eval)

lemma eval_sums_both:
  "sumUp (kalshi_prices (Finite 40) (Finite 40)) (polymarket_prices ''0.40'' ''0.48'')
     = parseFloat ''0.88''"
  "sumDown (kalshi_prices (Finite 40) (Finite 40)) (polymarket_prices ''0.40'' ''0.48'')
     = parseFloat ''0.8''"
  by (simp_all add: arb_eval ex_eval num_eval parseFloat_facts fl_eval)

text \<open>C3, amended: with both venues present, when the sum of leg 1 is within the band
  (whether leg 1 fires now or had fired before), the call returns without looking at
  leg 2: the set of leg 2 is as before, no leg 2 order is placed, and the outcome does not
  depend on the prices of leg 2. When the sum of leg 1 is outside the band, leg 2 is
  evaluated on the same tick. In either case a tick fires at most one leg.\<close>

theorem leg1_in_band_skips_leg2:
  assumes "kalshi p = Some k" and "polymarket p = Some pm"
  shows "(inRange cfg (sumUp k pm) \<longrightarrow>
            downArbDoneTickers (arb (fst (checkArbAndPlaceOrders cfg env s p)))
              = downArbDoneTickers (arb s)
          \<and> \<not> list_ex (is_kalshi_order t No) (fst (snd (checkArbAndPlaceOrders cfg env s p)))
          \<and> (upAskCents k' = upAskCents k \<and> downAsk pm' = downAsk pm \<and> slug pm' = slug pm \<longrightarrow>
               checkArbAndPlaceOrders cfg env s (p\<lparr>kalshi := Some k', polymarket := Some pm'\<rparr>)
                 = checkArbAndPlaceOrders cfg env s p))
    \<and> (\<not> inRange cfg (sumUp k pm) \<and> kalshiTicker p \<notin> downArbDoneTickers (arb s) \<longrightarrow>
          (kalshiTicker p \<in> downArbDoneTickers (arb (fst (checkArbAndPlaceOrders cfg env s p)))
             \<longleftrightarrow> inRange cfg (sumDown k pm)))
    \<and> (upArbDoneTickers (arb (fst (checkArbAndPlaceOrders cfg env s p))) = upArbDoneTickers (arb s)
        \<or> downArbDoneTickers (arb (fst (checkArbAndPlaceOrders cfg env s p)))
             = downArbDoneTickers (arb s))
    \<and> length (filter is_kalshi_submission (fst (snd (checkArbAndPlaceOrders cfg env s p)))) \<le> 1
    \<and> length (filter is_polymarket_submission (fst (snd (checkArbAndPlaceOrders cfg env s p)))) \<le> 1"
proof (intro conjI impI)
  assume r: "inRange cfg (sumUp k pm)"
  show "downArbDoneTickers (arb (fst (checkArbAndPlaceOrders cfg env s p)))
          = downArbDoneTickers (arb s)"
    using assms r by (simp add: checkArb_state arb_decide_leg1_down)
  show "\<not> list_ex (is_kalshi_order t No) (fst (snd (checkArbAndPlaceOrders cfg env s p)))"
    using assms r by (rule checkArb_leg1_no_leg2_order)
  assume "upAskCents k' = upAskCents k \<and> downAsk pm' = downAsk pm \<and> slug pm' = slug pm"
  then show "checkArbAndPlaceOrders cfg env s (p\<lparr>kalshi := Some k', polymarket := Some pm'\<rparr>)
               = checkArbAndPlaceOrders cfg env s p"
    using assms r by (simp add: checkArb_leg1_independent)
next
  assume "\<not> inRange cfg (sumUp k pm) \<and> kalshiTicker p \<notin> downArbDoneTickers (arb s)"
  then show "kalshiTicker p \<in> downArbDoneTickers (arb (fst (checkArbAndPlaceOrders cfg env s p)))
               \<longleftrightarrow> inRange cfg (sumDown k pm)"
    using assms by (simp add: checkArb_state arb_decide_down_iff)
next
  show "upArbDoneTickers (arb (fst (checkArbAndPlaceOrders cfg env s p))) = upArbDoneTickers (arb s)
        \<or> downArbDoneTickers (arb (fst (checkArbAndPlaceOrders cfg env s p)))
             = downArbDoneTickers (arb s)"
    by (simp add: checkArb_state arb_decide_one_set)
next
  obtain s' fx r where c: "checkArbAndPlaceOrders cfg env s p = (s', fx, r)"
    by (cases "checkArbAndPlaceOrders cfg env s p")
  from checkArb_orders [OF c] c
  show "length (filter is_kalshi_submission (fst (snd (checkArbAndPlaceOrders cfg env s p)))) \<le> 1"
    and "length (filter is_polymarket_submission
                   (fst (snd (checkArbAndPlaceOrders cfg env s p)))) \<le> 1"
    by simp_all
qed

theorem leg1_in_band_skips_leg2_witness:
  "inRange live_config
     (sumUp (kalshi_prices (Finite 40) (Finite 40)) (polymarket_prices ''0.40'' ''0.48''))
   \<and> inRange live_config
       (sumDown (kalshi_prices (Finite 40) (Finite 40)) (polymarket_prices ''0.40'' ''0.48''))
   \<and> downArbDoneTickers (arb (fst (checkArbAndPlaceOrders live_config orders_accepted
        initial_process (snapshot (Finite 40) (Finite 40) ''0.40'' ''0.48'')))) = {}
   \<and> \<not> list_ex (is_kalshi_order ''KXBTC15M-1'' No)
          (fst (snd (checkArbAndPlaceOrders live_config orders_accepted initial_process
             (snapshot (Finite 40) (Finite 40) ''0.40'' ''0.48''))))
   \<and> checkArbAndPlaceOrders live_config orders_accepted initial_process
        (snapshot (Finite 40) (Finite 55) ''0.38'' ''0.48'')
      = checkArbAndPlaceOrders live_config orders_accepted initial_process
          (snapshot (Finite 40) (Finite 40) ''0.40'' ''0.48'')
   \<and> ''KXBTC15M-1'' \<in> downArbDoneTickers (arb (fst (checkArbAndPlaceOrders live_config
        orders_accepted initial_process (snapshot (Finite 40) (Finite 40) ''0.40'' ''0.56''))))"
proof -
  have k: "\<And>a b c d. kalshi (snapshot a b c d) = Some (kalshi_prices a b)"
    and pm: "\<And>a b c d. polymarket (snapshot a b c d) = Some (polymarket_prices c d)"
    by (simp_all add: snapshot_def)
  have in1: "inRange live_config
     (sumUp (kalshi_prices (Finite 40) (Finite 40)) (polymarket_prices ''0.40'' ''0.48''))"
    and in2: "inRange live_config
     (sumDown (kalshi_prices (Finite 40) (Finite 40)) (polymarket_prices ''0.40'' ''0.48''))"
    by (simp_all add: eval_sums_both eval_inRange)
  have same: "(snapshot (Finite 40) (Finite 40) ''0.40'' ''0.48'')
                \<lparr>kalshi := Some (kalshi_prices (Finite 40) (Finite 55)),
                 polymarket := Some (polymarket_prices ''0.38'' ''0.48'')\<rparr>
              = snapshot (Finite 40) (Finite 55) ''0.38'' ''0.48''"
    by (simp add: snapshot_def)
  have fields: "upAskCents (kalshi_prices (Finite 40) (Finite 55))
                  = upAskCents (kalshi_prices (Finite 40) (Finite 40))
    \<and> downAsk (polymarket_prices ''0.38'' ''0.48'') = downAsk (polymarket_prices ''0.40'' ''0.48'')
    \<and> slug (polymarket_prices ''0.38'' ''0.48'') = slug (polymarket_prices ''0.40'' ''0.48'')"
    by (simp add: kalshi_prices_def polymarket_prices_def)
  note both = leg1_in_band_skips_leg2 [OF k pm, of live_config "Finite 40" "Finite 40"
      "''0.40''" "''0.48''" orders_accepted initial_process "''KXBTC15M-1''"
      "kalshi_prices (Finite 40) (Finite 55)" "polymarket_prices ''0.38'' ''0.48''"]
  note second = leg1_in_band_skips_leg2 [OF k pm, of live_config "Finite 40" "Finite 40"
      "''0.40''" "''0.56''" orders_accepted initial_process "''KXBTC15M-1''"
      "kalshi_prices (Finite 40) (Finite 55)" "polymarket_prices ''0.38'' ''0.48''"]
  have out: "\<not> inRange live_config
     (sumUp (kalshi_prices (Finite 40) (Finite 40)) (polymarket_prices ''0.40'' ''0.56''))"
    and in3: "inRange live_config
     (sumDown (kalshi_prices (Finite 40) (Finite 40)) (polymarket_prices ''0.40'' ''0.56''))"
    by (simp_all add: eval_sums eval_inRange)
  have fresh: "kalshiTicker (snapshot (Finite 40) (Finite 40) ''0.40'' ''0.56'')
                 \<notin> downArbDoneTickers (arb initial_process)"
    and ticker: "kalshiTicker (snapshot (Finite 40) (Finite 40) ''0.40'' ''0.56'') = ''KXBTC15M-1''"
    and empty: "downArbDoneTickers (arb initial_process) = {}"
    by (simp_all add: snapshot_def initial_process_def initial_arb_state_def)
  from both in1 fields same have
    "downArbDoneTickers (arb (fst (checkArbAndPlaceOrders live_config orders_accepted
        initial_process (snapshot (Finite 40) (Finite 40) ''0.40'' ''0.48'')))) = {}"
    "\<not> list_ex (is_kalshi_order ''KXBTC15M-1'' No)
          (fst (snd (checkArbAndPlaceOrders live_config orders_accepted initial_process
             (snapshot (Finite 40) (Finite 40) ''0.40'' ''0.48''))))"
    "checkArbAndPlaceOrders live_config orders_accepted initial_process
        (snapshot (Finite 40) (Finite 55) ''0.38'' ''0.48'')
      = checkArbAndPlaceOrders live_config orders_accepted initial_process
          (snapshot (Finite 40) (Finite 40) ''0.40'' ''0.48'')"
    by (simp_all add: empty)
  moreover from second out in3 fresh ticker have
    "''KXBTC15M-1'' \<in> downArbDoneTickers (arb (fst (checkArbAndPlaceOrders live_config
        orders_accepted initial_process (snapshot (Finite 40) (Finite 40) ''0.40'' ''0.56''))))"
    by simp
  ultimately show ?thesis using in1 in2 by simp
qed
section \<open>At most once per market and leg\<close>

lemma run_arb_bound:
  "length (filter (list_ex (is_kalshi_order t sd)) (snd (run_arb cfg s calls)))
     \<le> (if t \<in> done_set sd s then 0 else 1)"
proof (induction calls arbitrary: s)
  case Nil
  then show ?case by simp
next
  case (Cons c calls)
  obtain env p where c: "c = (env, p)" by (cases c)
  obtain s' fx r where step: "checkArbAndPlaceOrders cfg env s p = (s', fx, r)"
    by (cases "checkArbAndPlaceOrders cfg env s p")
  obtain s'' fxs where rest: "run_arb cfg s' calls = (s'', fxs)"
    by (cases "run_arb cfg s' calls")
  have run: "snd (run_arb cfg s (c # calls)) = fx # fxs"
    using c step rest by simp
  have IH: "length (filter (list_ex (is_kalshi_order t sd)) fxs)
     \<le> (if t \<in> done_set sd s' then 0 else 1)"
    using Cons.IH [of s'] rest by simp
  have mono: "done_set sd s \<subseteq> done_set sd s'"
    using checkArb_mono [of sd s cfg env p] step by simp
  show ?case
  proof (cases "list_ex (is_kalshi_order t sd) fx")
    case True
    from checkArb_kalshi_order [OF step True] IH run True show ?thesis by simp
  next
    case False
    with IH run mono show ?thesis by (auto split: if_splits)
  qed
qed

lemma run_arb_each:
  "fx \<in> set (snd (run_arb cfg s calls)) \<Longrightarrow>
   length (filter is_kalshi_submission fx) \<le> 1
   \<and> length (filter is_polymarket_submission fx) \<le> length (filter is_kalshi_submission fx)"
proof (induction calls arbitrary: s)
  case Nil
  then show ?case by simp
next
  case (Cons c calls)
  obtain env p where c: "c = (env, p)" by (cases c)
  obtain s' fx' r where step: "checkArbAndPlaceOrders cfg env s p = (s', fx', r)"
    by (cases "checkArbAndPlaceOrders cfg env s p")
  obtain s'' fxs where rest: "run_arb cfg s' calls = (s'', fxs)"
    by (cases "run_arb cfg s' calls")
  from Cons.prems c step rest have "fx = fx' \<or> fx \<in> set (snd (run_arb cfg s' calls))"
    by auto
  then show ?case
  proof
    assume "fx = fx'"
    with checkArb_orders [OF step] show ?thesis by simp
  next
    assume "fx \<in> set (snd (run_arb cfg s' calls))"
    then show ?thesis by (rule Cons.IH)
  qed
qed

lemma run_arb_mono:
  "done_set sd s \<subseteq> done_set sd (fst (run_arb cfg s calls))"
proof (induction calls arbitrary: s)
  case Nil
  then show ?case by simp
next
  case (Cons c calls)
  obtain env p where c: "c = (env, p)" by (cases c)
  have "done_set sd s \<subseteq> done_set sd (fst (checkArbAndPlaceOrders cfg env s p))"
    by (rule checkArb_mono)
  also have "\<dots> \<subseteq> done_set sd (fst (run_arb cfg (fst (checkArbAndPlaceOrders cfg env s p)) calls))"
    by (rule Cons.IH)
  also have "\<dots> = done_set sd (fst (run_arb cfg s (c # calls)))"
    using c by (simp split: prod.splits)
  finally show ?case .
qed

lemma eval_decide_leg1:
  "arb_decide live_config initial_arb_state (snapshot (Finite 40) (Finite 55) ''0.38'' ''0.48'')
   = (\<lparr>upArbDoneTickers = {''KXBTC15M-1''}, downArbDoneTickers = {}\<rparr>,
      [Console (ArbOpportunity Yes (parseFloat ''0.88'') (parseFloat ''0.4'') (parseFloat ''0.48'')
                  False (Finite 41) (parseFloat ''0.49'')),
       MonitorLog (ArbOpportunity Yes (parseFloat ''0.88'') (parseFloat ''0.4'')
                  (parseFloat ''0.48'') False (Finite 41) (parseFloat ''0.49''))],
      Some \<lparr>plan_ticker = ''KXBTC15M-1'', plan_side = Yes, plan_contracts = Finite 3,
             plan_kalshiPriceCents = Finite 41, plan_slug = ''btc-updown-15m-0'',
             plan_polyPrice = parseFloat ''0.49'', plan_polySize = Finite 3\<rparr>)"
  by (simp add: arb_eval ex_eval num_eval parseFloat_facts fl_eval)

text \<open>C1: over any sequence of calls of \<open>checkArbAndPlaceOrders\<close>, from any state and
  whatever the venues answer, at most one call submits a Kalshi order for a given ticker
  and leg, and none does once the ticker is in the set of that leg; a call submits at
  most one Kalshi order and at most one Polymarket order, the latter only together with
  the former. The ticker is put into the set by the part of the call that runs before
  any order is issued; what the venues answer has no influence on the sets, which only
  grow: a leg whose orders failed is not tried again.\<close>

theorem orders_at_most_once:
  "length (filter (list_ex (is_kalshi_order t sd)) (snd (run_arb cfg s calls))) \<le> 1
   \<and> (t \<in> done_set sd s \<longrightarrow>
        filter (list_ex (is_kalshi_order t sd)) (snd (run_arb cfg s calls)) = [])
   \<and> (\<forall>fx \<in> set (snd (run_arb cfg s calls)).
        length (filter is_kalshi_submission fx) \<le> 1
        \<and> length (filter is_polymarket_submission fx) \<le> length (filter is_kalshi_submission fx))
   \<and> (arb_decide cfg st p = (st', fx0, Some lo) \<longrightarrow>
        plan_ticker lo
          \<in> (case plan_side lo of Yes \<Rightarrow> upArbDoneTickers st' | No \<Rightarrow> downArbDoneTickers st')
        \<and> filter is_kalshi_submission fx0 = [] \<and> filter is_polymarket_submission fx0 = [])
   \<and> arb (fst (checkArbAndPlaceOrders cfg env s p)) = fst (arb_decide cfg (arb s) p)
   \<and> done_set sd s \<subseteq> done_set sd (fst (run_arb cfg s calls))"
proof (intro conjI impI ballI)
  show "length (filter (list_ex (is_kalshi_order t sd)) (snd (run_arb cfg s calls))) \<le> 1"
    using run_arb_bound [of t sd cfg s calls] by (simp split: if_splits)
  show "filter (list_ex (is_kalshi_order t sd)) (snd (run_arb cfg s calls)) = []"
    if "t \<in> done_set sd s"
    using run_arb_bound [of t sd cfg s calls] that by simp
  show "length (filter is_kalshi_submission fx) \<le> 1"
    and "length (filter is_polymarket_submission fx) \<le> length (filter is_kalshi_submission fx)"
    if "fx \<in> set (snd (run_arb cfg s calls))" for fx
    using run_arb_each [OF that] by simp_all
  show "plan_ticker lo
          \<in> (case plan_side lo of Yes \<Rightarrow> upArbDoneTickers st' | No \<Rightarrow> downArbDoneTickers st')"
    and "filter is_kalshi_submission fx0 = []" and "filter is_polymarket_submission fx0 = []"
    if "arb_decide cfg st p = (st', fx0, Some lo)"
    using arb_decide_plan(4) [OF that] arb_decide_no_orders [OF that] by simp_all
  show "arb (fst (checkArbAndPlaceOrders cfg env s p)) = fst (arb_decide cfg (arb s) p)"
    by (rule checkArb_state)
  show "done_set sd s \<subseteq> done_set sd (fst (run_arb cfg s calls))"
    by (rule run_arb_mono)
qed

theorem orders_at_most_once_witness:
  "length (filter (list_ex (is_kalshi_order ''KXBTC15M-1'' Yes))
     (snd (run_arb live_config initial_process
        [(orders_refused, snapshot (Finite 40) (Finite 55) ''0.38'' ''0.48''),
         (orders_accepted, snapshot (Finite 40) (Finite 55) ''0.38'' ''0.48''),
         (orders_accepted, snapshot (Finite 40) (Finite 55) ''0.38'' ''0.48'')]))) = 1
   \<and> snd (run_arb live_config
        (fst (checkArbAndPlaceOrders live_config orders_refused initial_process
                (snapshot (Finite 40) (Finite 55) ''0.38'' ''0.48'')))
        [(orders_accepted, snapshot (Finite 40) (Finite 55) ''0.38'' ''0.48''),
         (orders_accepted, snapshot (Finite 40) (Finite 55) ''0.38'' ''0.48'')]) = [[], []]
   \<and> ''KXBTC15M-1'' \<in> done_set Yes
        (fst (checkArbAndPlaceOrders live_config orders_refused initial_process
                (snapshot (Finite 40) (Finite 55) ''0.38'' ''0.48'')))
   \<and> ''KXBTC15M-1'' \<in> upArbDoneTickers
        (fst (arb_decide live_config initial_arb_state
                (snapshot (Finite 40) (Finite 55) ''0.38'' ''0.48'')))
   \<and> done_set Yes initial_process = {}"
proof -
  let ?snap = "snapshot (Finite 40) (Finite 55) ''0.38'' ''0.48''"
  let ?calls = "[(orders_refused, ?snap), (orders_accepted, ?snap), (orders_accepted, ?snap)]"
  let ?s1 = "fst (checkArbAndPlaceOrders live_config orders_refused initial_process ?snap)"
  note whole = orders_at_most_once [of "''KXBTC15M-1''" Yes live_config initial_process ?calls
      initial_arb_state ?snap "\<lparr>upArbDoneTickers = {''KXBTC15M-1''}, downArbDoneTickers = {}\<rparr>"
      "fst (snd (arb_decide live_config initial_arb_state ?snap))"
      "\<lparr>plan_ticker = ''KXBTC15M-1'', plan_side = Yes, plan_contracts = Finite 3,
        plan_kalshiPriceCents = Finite 41, plan_slug = ''btc-updown-15m-0'',
        plan_polyPrice = parseFloat ''0.49'', plan_polySize = Finite 3\<rparr>" orders_refused]
  note later = orders_at_most_once [of "''KXBTC15M-1''" Yes live_config ?s1
      "[(orders_accepted, ?snap), (orders_accepted, ?snap)]"
      initial_arb_state ?snap "\<lparr>upArbDoneTickers = {''KXBTC15M-1''}, downArbDoneTickers = {}\<rparr>"
      "fst (snd (arb_decide live_config initial_arb_state ?snap))"
      "\<lparr>plan_ticker = ''KXBTC15M-1'', plan_side = Yes, plan_contracts = Finite 3,
        plan_kalshiPriceCents = Finite 41, plan_slug = ''btc-updown-15m-0'',
        plan_polyPrice = parseFloat ''0.49'', plan_polySize = Finite 3\<rparr>" orders_refused]
  have marked: "''KXBTC15M-1'' \<in> done_set Yes ?s1"
    by (simp add: eval_leg1_refused done_set_def)
  have count: "length (filter (list_ex (is_kalshi_order ''KXBTC15M-1'' Yes))
                 (snd (run_arb live_config initial_process ?calls))) = 1"
    by (simp add: eval_leg1_refused eval_leg1_again is_kalshi_order_def)
  have rest: "snd (run_arb live_config ?s1 [(orders_accepted, ?snap), (orders_accepted, ?snap)])
                = [[], []]"
    by (simp add: eval_leg1_refused eval_leg1_again)
  have decided: "arb_decide live_config initial_arb_state ?snap
      = (\<lparr>upArbDoneTickers = {''KXBTC15M-1''}, downArbDoneTickers = {}\<rparr>,
         fst (snd (arb_decide live_config initial_arb_state ?snap)),
         Some \<lparr>plan_ticker = ''KXBTC15M-1'', plan_side = Yes, plan_contracts = Finite 3,
        plan_kalshiPriceCents = Finite 41, plan_slug = ''btc-updown-15m-0'',
        plan_polyPrice = parseFloat ''0.49'', plan_polySize = Finite 3\<rparr>)"
    by (simp add: eval_decide_leg1)
  from whole later marked count rest decided show ?thesis
    by (simp add: done_set_def initial_process_def initial_arb_state_def)
qed


section \<open>Limit prices\<close>

lemma fl_not_NaN [simp]: "fl q \<noteq> NaN"
  by (simp add: fl_def)

lemma js_add_finite: "isFinite (js_add x y) \<Longrightarrow> isFinite x \<and> isFinite y"
  by (cases x; cases y) (auto simp: isFinite_def)

lemma js_add_not_NaN: "isFinite x \<Longrightarrow> y \<noteq> NaN \<Longrightarrow> js_add x y \<noteq> NaN"
  by (cases x; cases y) (auto simp: isFinite_def)

lemma js_mul_100_not_NaN: "x \<noteq> NaN \<Longrightarrow> js_mul x (Finite 100) \<noteq> NaN"
  by (cases x) (auto simp: js_mul_def signed_infinity_def js_sign_def)

lemma Math_round_not_NaN: "x \<noteq> NaN \<Longrightarrow> Math_round x \<noteq> NaN"
  by (cases x) (auto simp: Math_round_def)

lemma clamp_bounds:
  "x \<noteq> NaN \<Longrightarrow>
   js_le (Finite 1) (Math_max (Finite 1) (Math_min (Finite 99) x))
   \<and> js_le (Math_max (Finite 1) (Math_min (Finite 99) x)) (Finite 99)"
  by (cases x) (auto simp: Math_max_def Math_min_def js_le_def js_ge_def)

lemma cap_bound: "x \<noteq> NaN \<Longrightarrow> js_le (Math_min (Finite 1) x) (Finite 1)"
  by (cases x) (auto simp: Math_min_def js_le_def js_ge_def)

lemma inRange_summands: "inRange cfg (js_add x y) \<Longrightarrow> isFinite x \<and> isFinite y"
  by (auto simp: inRange_def dest: js_add_finite)

lemma arb_decide_plan_prices:
  assumes "arb_decide cfg st p = (st', fx, Some lo)"
    and "kalshi p = Some k" and "polymarket p = Some pm"
  shows "plan_kalshiPriceCents lo
           = Math_round (js_mul (js_add (js_div (case plan_side lo of Yes \<Rightarrow> upAskCents k
                                                  | No \<Rightarrow> downAskCents k) (Finite 100))
                                   (ARB_PRICE_BUFFER cfg)) (Finite 100))"
    and "plan_polyPrice lo
           = Math_min (Finite 1) (js_add (case plan_side lo of Yes \<Rightarrow> downAsk pm | No \<Rightarrow> upAsk pm)
                                    (ARB_PRICE_BUFFER cfg))"
    and "plan_contracts lo = kalshiContracts cfg" and "plan_polySize lo = polySize cfg"
    and "isFinite (js_div (case plan_side lo of Yes \<Rightarrow> upAskCents k | No \<Rightarrow> downAskCents k)
                     (Finite 100))"
    and "isFinite (case plan_side lo of Yes \<Rightarrow> downAsk pm | No \<Rightarrow> upAsk pm)"
  using assms
  by (auto simp: arb_decide_def kUp_def kDown_def sumUp_def sumDown_def
      split: if_splits dest: inRange_summands)

lemma placePolymarketOrder_post:
  assumes "placePolymarketOrder cfg outcome tok pr sz None = (r, fx)"
    and "e \<in> set fx" and "is_polymarket_submission e"
  shows "e = Clob_createAndPostOrder tok (roundPriceToTickSize pr (POLYMARKET_TICK_SIZE cfg)) sz
               (POLYMARKET_TICK_SIZE cfg) (POLYMARKET_NEG_RISK cfg)"
  using assms
  by (auto simp: placePolymarketOrder_def clob_post_def option_tickSize_def option_negRisk_def
      nullish_def is_polymarket_submission_def split: if_splits clob_outcome.splits)

lemma placeOrder_no_post:
  "placeOrder cfg outcome t sd n pc live = (r, fx) \<Longrightarrow> e \<in> set fx \<Longrightarrow>
   \<not> is_polymarket_submission e"
  by (auto simp: placeOrder_def is_polymarket_submission_def
      split: if_splits createOrder_outcome.splits)

lemma getTokenIds_no_post:
  "getTokenIdsForSlugCached c sl reply = (c', fx, r) \<Longrightarrow> e \<in> set fx \<Longrightarrow>
   \<not> is_polymarket_submission e"
  by (auto simp: getTokenIdsForSlugCached_def is_polymarket_submission_def
      split: option.splits if_splits sum.splits)

lemma failed_logs_no_post:
  "e \<in> set (kalshi_failed_log r) \<Longrightarrow> \<not> is_polymarket_submission e"
  "e \<in> set (poly_failed_log r') \<Longrightarrow> \<not> is_polymarket_submission e"
  by (auto simp: kalshi_failed_log_def poly_failed_log_def is_polymarket_submission_def
      split: order_result.splits option.splits)

lemma arb_submit_post:
  assumes "arb_submit cfg env c lo = (c', fx, r)"
    and "e \<in> set fx" and "is_polymarket_submission e"
  shows "\<exists>tok. e = Clob_createAndPostOrder tok
                     (roundPriceToTickSize (plan_polyPrice lo) (POLYMARKET_TICK_SIZE cfg))
                     (plan_polySize lo) (POLYMARKET_TICK_SIZE cfg) (POLYMARKET_NEG_RISK cfg)"
  using assms
  by (auto simp: arb_submit_def split: prod.splits sum.splits
      dest: placeOrder_no_post getTokenIds_no_post failed_logs_no_post
      dest!: placePolymarketOrder_post)

lemma eval_submit_leg1:
  "arb_submit live_config orders_accepted None
     \<lparr>plan_ticker = ''KXBTC15M-1'', plan_side = Yes, plan_contracts = Finite 3,
       plan_kalshiPriceCents = Finite 41, plan_slug = ''btc-updown-15m-0'',
       plan_polyPrice = parseFloat ''0.49'', plan_polySize = Finite 3\<rparr>
   = (Some \<lparr>upTokenId = ''token-up'', downTokenId = ''token-down'',
             cached_slug = ''btc-updown-15m-0''\<rparr>,
      [Kalshi_createOrder ''KXBTC15M-1'' Yes (Finite 3) (Finite 41),
       Console (OrderPlaced ''k-1'' ''KXBTC15M-1'' Yes (Finite 3) (Finite 41)),
       MonitorLog (OrderPlaced ''k-1'' ''KXBTC15M-1'' Yes (Finite 3) (Finite 41)),
       Gamma_fetch ''btc-updown-15m-0'',
       Clob_createAndPostOrder ''token-down'' (parseFloat ''0.49'') (Finite 3) ''0.01'' False,
       Console (PolymarketOrderPlaced ''p-1'' ''token-down'' (parseFloat ''0.49'') (Finite 3)),
       MonitorLog (PolymarketOrderPlaced ''p-1'' ''token-down'' (parseFloat ''0.49'') (Finite 3))],
      None)"
  by (simp add: arb_eval ex_eval num_eval parseFloat_facts fl_eval)

lemma eval_example_asks:
  "kUp (kalshi_prices (Finite 40) (Finite 55)) = parseFloat ''0.40''"
  "downAsk (polymarket_prices ''0.38'' ''0.48'') = parseFloat ''0.48''"
  "js_div (Finite 41) (Finite 100) = parseFloat ''0.41''"
  by (simp_all add: arb_eval ex_eval num_eval parseFloat_facts fl_eval)

text \<open>C9: when a leg fires, the Kalshi limit price is the observed Kalshi ask of the leg
  plus \<open>ARB_PRICE_BUFFER\<close>, in cents rounded to an integer, and \<open>placeOrder\<close> submits
  it clamped to 1..99; the Polymarket limit price is the smaller of 1 and the observed
  Polymarket ask of the leg plus the buffer, and \<open>placePolymarketOrder\<close> posts it rounded
  to the tick size. With a buffer that is a number the submitted Kalshi price lies within
  1..99 and the Polymarket price is at most 1. With buffer 0.01, Kalshi UP ask 0.40 (40
  cents) and Polymarket DOWN ask 0.48 the orders go out at 41 cents and at 0.49.\<close>

theorem limit_prices:
  assumes "kalshi p = Some k" and "polymarket p = Some pm"
    and "arb_decide cfg st p = (st', fx, Some lo)"
    and "arb_submit cfg env c lo = (c', fx', r)"
  shows "plan_kalshiPriceCents lo
           = Math_round (js_mul (js_add (js_div (case plan_side lo of Yes \<Rightarrow> upAskCents k
                                                  | No \<Rightarrow> downAskCents k) (Finite 100))
                                   (ARB_PRICE_BUFFER cfg)) (Finite 100))
    \<and> filter is_kalshi_submission (fx @ fx')
        = [Kalshi_createOrder (kalshiTicker p) (plan_side lo) (kalshiContracts cfg)
             (Math_max (Finite 1) (Math_min (Finite 99) (plan_kalshiPriceCents lo)))]
    \<and> plan_polyPrice lo
        = Math_min (Finite 1) (js_add (case plan_side lo of Yes \<Rightarrow> downAsk pm | No \<Rightarrow> upAsk pm)
                                 (ARB_PRICE_BUFFER cfg))
    \<and> (\<forall>e \<in> set (fx @ fx'). is_polymarket_submission e \<longrightarrow>
          (\<exists>tok. e = Clob_createAndPostOrder tok
                        (roundPriceToTickSize (plan_polyPrice lo) (POLYMARKET_TICK_SIZE cfg))
                        (polySize cfg) (POLYMARKET_TICK_SIZE cfg) (POLYMARKET_NEG_RISK cfg)))
    \<and> (ARB_PRICE_BUFFER cfg \<noteq> NaN \<longrightarrow>
          js_le (Finite 1) (Math_max (Finite 1) (Math_min (Finite 99) (plan_kalshiPriceCents lo)))
          \<and> js_le (Math_max (Finite 1) (Math_min (Finite 99) (plan_kalshiPriceCents lo))) (Finite 99)
          \<and> js_le (plan_polyPrice lo) (Finite 1))
    \<and> filter (\<lambda>e. is_kalshi_submission e \<or> is_polymarket_submission e)
          (fst (snd (checkArbAndPlaceOrders live_config orders_accepted initial_process
                       (snapshot (Finite 40) (Finite 55) ''0.38'' ''0.48''))))
        = [Kalshi_createOrder ''KXBTC15M-1'' Yes (Finite 3) (Finite 41),
           Clob_createAndPostOrder ''token-down'' (parseFloat ''0.49'') (Finite 3) ''0.01'' False]"
proof (intro conjI ballI impI)
  note P = arb_decide_plan_prices [OF assms(3) assms(1) assms(2)]
  show "plan_kalshiPriceCents lo
           = Math_round (js_mul (js_add (js_div (case plan_side lo of Yes \<Rightarrow> upAskCents k
                                                  | No \<Rightarrow> downAskCents k) (Finite 100))
                                   (ARB_PRICE_BUFFER cfg)) (Finite 100))"
    by (rule P(1))
  show "filter is_kalshi_submission (fx @ fx')
        = [Kalshi_createOrder (kalshiTicker p) (plan_side lo) (kalshiContracts cfg)
             (Math_max (Finite 1) (Math_min (Finite 99) (plan_kalshiPriceCents lo)))]"
    using arb_decide_no_orders [OF assms(3)] arb_submit_orders [OF assms(4)]
      arb_decide_plan(1) [OF assms(3)] P(3)
    by simp
  show "plan_polyPrice lo
        = Math_min (Finite 1) (js_add (case plan_side lo of Yes \<Rightarrow> downAsk pm | No \<Rightarrow> upAsk pm)
                                 (ARB_PRICE_BUFFER cfg))"
    by (rule P(2))
  show "\<exists>tok. e = Clob_createAndPostOrder tok
                        (roundPriceToTickSize (plan_polyPrice lo) (POLYMARKET_TICK_SIZE cfg))
                        (polySize cfg) (POLYMARKET_TICK_SIZE cfg) (POLYMARKET_NEG_RISK cfg)"
    if e: "e \<in> set (fx @ fx')" and post: "is_polymarket_submission e" for e
  proof -
    from arb_decide_no_orders [OF assms(3)] have "\<forall>x \<in> set fx. \<not> is_polymarket_submission x"
      by (simp add: filter_empty_conv)
    with e post have "e \<in> set fx'" by auto
    from arb_submit_post [OF assms(4) this post] P(4) show ?thesis by simp
  qed
  have cents: "plan_kalshiPriceCents lo \<noteq> NaN" and poly: "plan_polyPrice lo \<noteq> NaN \<or> True"
    if "ARB_PRICE_BUFFER cfg \<noteq> NaN"
    using that P(1) P(5)
    by (simp_all add: Math_round_not_NaN js_mul_100_not_NaN js_add_not_NaN)
  show "js_le (Finite 1) (Math_max (Finite 1) (Math_min (Finite 99) (plan_kalshiPriceCents lo)))"
    and "js_le (Math_max (Finite 1) (Math_min (Finite 99) (plan_kalshiPriceCents lo))) (Finite 99)"
    if "ARB_PRICE_BUFFER cfg \<noteq> NaN"
    using clamp_bounds [OF cents [OF that]] by simp_all
  show "js_le (plan_polyPrice lo) (Finite 1)" if "ARB_PRICE_BUFFER cfg \<noteq> NaN"
    using that P(2) P(6) by (simp add: cap_bound js_add_not_NaN)
  show "filter (\<lambda>e. is_kalshi_submission e \<or> is_polymarket_submission e)
          (fst (snd (checkArbAndPlaceOrders live_config orders_accepted initial_process
                       (snapshot (Finite 40) (Finite 55) ''0.38'' ''0.48''))))
        = [Kalshi_createOrder ''KXBTC15M-1'' Yes (Finite 3) (Finite 41),
           Clob_createAndPostOrder ''token-down'' (parseFloat ''0.49'') (Finite 3) ''0.01'' False]"
    by (simp add: eval_leg1_accepted is_kalshi_submission_def is_polymarket_submission_def)
qed

theorem limit_prices_witness:
  "ARB_PRICE_BUFFER live_config = parseFloat ''0.01''
   \<and> kUp (kalshi_prices (Finite 40) (Finite 55)) = parseFloat ''0.40''
   \<and> downAsk (polymarket_prices ''0.38'' ''0.48'') = parseFloat ''0.48''
   \<and> Math_round (js_mul (js_add (js_div (Finite 40) (Finite 100)) (parseFloat ''0.01''))
                    (Finite 100)) = Finite 41
   \<and> js_div (Finite 41) (Finite 100) = parseFloat ''0.41''
   \<and> Math_min (Finite 1) (js_add (parseFloat ''0.48'') (parseFloat ''0.01'')) = parseFloat ''0.49''
   \<and> js_le (Finite 1) (Math_max (Finite 1) (Math_min (Finite 99) (Finite 41)))
   \<and> js_le (Math_max (Finite 1) (Math_min (Finite 99) (Finite 41))) (Finite 99)
   \<and> js_le (parseFloat ''0.49'') (Finite 1)"
proof -
  let ?snap = "snapshot (Finite 40) (Finite 55) ''0.38'' ''0.48''"
  let ?lo = "\<lparr>plan_ticker = ''KXBTC15M-1'', plan_side = Yes, plan_contracts = Finite 3,
       plan_kalshiPriceCents = Finite 41, plan_slug = ''btc-updown-15m-0'',
       plan_polyPrice = parseFloat ''0.49'', plan_polySize = Finite 3\<rparr>"
  have k: "kalshi ?snap = Some (kalshi_prices (Finite 40) (Finite 55))"
    and pm: "polymarket ?snap = Some (polymarket_prices ''0.38'' ''0.48'')"
    by (simp_all add: snapshot_def)
  have buffer: "ARB_PRICE_BUFFER live_config \<noteq> NaN"
    by (simp add: live_config_thresholds parseFloat_facts)
  note L = limit_prices [OF k pm eval_decide_leg1 eval_submit_leg1]
  from L [THEN conjunct1]
  have cents: "Math_round (js_mul (js_add (js_div (Finite 40) (Finite 100)) (parseFloat ''0.01''))
                 (Finite 100)) = Finite 41"
    by (simp add: kalshi_prices_def live_config_thresholds)
  from L [THEN conjunct2, THEN conjunct2, THEN conjunct1]
  have poly: "Math_min (Finite 1) (js_add (parseFloat ''0.48'') (parseFloat ''0.01''))
                = parseFloat ''0.49''"
    by (simp add: polymarket_prices_def live_config_thresholds)
  from L [THEN conjunct2, THEN conjunct2, THEN conjunct2, THEN conjunct2, THEN conjunct1,
      rule_format, OF buffer]
  have bounds: "js_le (Finite 1) (Math_max (Finite 1) (Math_min (Finite 99) (Finite 41)))
     \<and> js_le (Math_max (Finite 1) (Math_min (Finite 99) (Finite 41))) (Finite 99)
     \<and> js_le (parseFloat ''0.49'') (Finite 1)"
    by simp
  from cents poly bounds show ?thesis
    by (simp add: live_config_thresholds eval_example_asks)
qed

section \<open>The poll scheduler\<close>

lemma remove_nth_single [simp]: "length xs = 1 \<Longrightarrow> i < length xs \<Longrightarrow> remove_nth i xs = []"
  by (cases xs) (auto simp: remove_nth_def)


lemma scheduleNext_fields [simp]:
  "awaiting (scheduleNext cfg a b s) = awaiting s"
  "pollInProgress (scheduleNext cfg a b s) = pollInProgress s"
  "exited (scheduleNext cfg a b s) = exited s"
  by (simp_all add: scheduleNext_def)

lemma scheduleNext_timers:
  "\<exists>new. timers (scheduleNext cfg a b s) = timers s @ new \<and> length new \<le> 1
         \<and> (\<forall>d \<in> set new. 0 \<le> d)"
  by (simp add: scheduleNext_def)

lemma finish_fields [simp]:
  "awaiting (finish s) = awaiting s" "\<not> pollInProgress (finish s)" "timers (finish s) = timers s"
  by (simp_all add: finish_def)

lemma guarded_fetch_or_reschedule:
  "awaiting s = [] \<Longrightarrow> pollInProgress s \<Longrightarrow> guarded (fetch_or_reschedule cfg a b s)"
  by (simp add: fetch_or_reschedule_def guarded_def)

lemma guarded_poll: "guarded s \<Longrightarrow> guarded (poll cfg now slot now' s)"
  by (auto simp: poll_def guarded_def fetch_or_reschedule_def)

lemma guarded_resume_markets:
  "awaiting s = [] \<Longrightarrow> pollInProgress s \<Longrightarrow> guarded (resume_markets cfg a r b s)"
  by (auto simp: resume_markets_def guarded_def fetch_or_reschedule_def split: sum.splits)

lemma guarded_resume_dual:
  "awaiting s = [] \<Longrightarrow> guarded (resume_dual cfg a r cb b s)"
  by (auto simp: resume_dual_def guarded_def split: sum.splits callback_outcome.splits)

lemma guarded_step: "guarded s \<Longrightarrow> guarded (step cfg s ev)"
proof (cases ev)
  case (TimerFires i now slot now')
  assume g: "guarded s"
  then have "guarded (s\<lparr>timers := remove_nth i (timers s)\<rparr>)"
    by (simp add: guarded_def)
  with g TimerFires show ?thesis
    by (simp add: step_def guarded_poll)
next
  case (MarketsSettled i result now')
  assume g: "guarded s"
  show ?thesis
  proof (cases "\<not> exited s \<and> i < length (awaiting s)")
    case True
    with g have one: "length (awaiting s) = 1" and flag: "pollInProgress s"
      by (auto simp: guarded_def)
    with True g MarketsSettled show ?thesis
      by (auto simp: step_def split: frame.splits intro!: guarded_resume_markets)
  next
    case False
    with g MarketsSettled show ?thesis by (auto simp: step_def)
  qed
next
  case (DualSettled i result cb now')
  assume g: "guarded s"
  show ?thesis
  proof (cases "\<not> exited s \<and> i < length (awaiting s)")
    case True
    with g have one: "length (awaiting s) = 1"
      by (auto simp: guarded_def)
    with True g DualSettled show ?thesis
      by (auto simp: step_def split: frame.splits intro!: guarded_resume_dual)
  next
    case False
    with g DualSettled show ?thesis by (auto simp: step_def)
  qed
next
  case StopCalled
  assume "guarded s"
  with StopCalled show ?thesis by (simp add: step_def guarded_def)
qed

lemma guarded_run: "guarded s \<Longrightarrow> guarded (run_events cfg s evs)"
  unfolding run_events_def
  by (induction evs arbitrary: s) (simp_all add: guarded_step)

lemma guarded_in_flight: "guarded s \<Longrightarrow> in_flight s \<le> 1"
proof -
  assume "guarded s"
  then have "length (awaiting s) \<le> 1" by (auto simp: guarded_def)
  with length_filter_le [of is_fetch "awaiting s"] show ?thesis
    unfolding in_flight_def by (rule order_trans)
qed

lemma start_guarded:
  "startDualPriceMonitor options slot markets = Inr (cfg, s0) \<Longrightarrow>
   awaiting s0 = [] \<and> timers s0 = [0] \<and> \<not> pollInProgress s0"
  by (auto simp: startDualPriceMonitor_def split: sum.splits if_splits)

lemma skipped_tick:
  "pollInProgress s \<Longrightarrow> \<not> exited s \<Longrightarrow> i < length (timers s) \<Longrightarrow>
   step cfg s (TimerFires i now slot now') = s\<lparr>timers := remove_nth i (timers s)\<rparr>"
  by (simp add: step_def poll_def)











lemmas poll_eval = step_def poll_def fetch_or_reschedule_def resume_dual_def resume_markets_def
  scheduleNext_def finish_def remove_nth_def run_events_def in_flight_def is_fetch_def
  pending_after_def scheduled_at_def started_at_def startDualPriceMonitor_def truthy_def
  nullish_def DEFAULT_POLL_MS_def fixed_ticker_options_def fixed_ticker_config_def
  fresh_scheduler_def busy_scheduler_def

text \<open>C5: in every run of the poll loop that \<open>startDualPriceMonitor\<close> starts, at most
  one invocation of \<open>poll\<close> is suspended at any time, so at most one fetch is in flight,
  and the flag is set as long as one is. A timer that fires while the flag is set is
  consumed and nothing else happens: no fetch starts and no timer is added. The same
  bound holds from any state in which the flag guards the suspended invocation, however
  many timers are pending.\<close>

theorem single_fetch_in_flight:
  assumes "startDualPriceMonitor options slot markets = Inr (cfg, s0)"
  shows "in_flight (run_events cfg s0 evs) \<le> 1
    \<and> length (awaiting (run_events cfg s0 evs)) \<le> 1
    \<and> (awaiting (run_events cfg s0 evs) \<noteq> [] \<longrightarrow> pollInProgress (run_events cfg s0 evs))
    \<and> (pollInProgress s \<and> \<not> exited s \<and> i < length (timers s) \<longrightarrow>
          step cfg s (TimerFires i now sl now') = s\<lparr>timers := remove_nth i (timers s)\<rparr>)
    \<and> (guarded s \<longrightarrow> in_flight (run_events cfg s evs') \<le> 1)"
proof -
  from start_guarded [OF assms] have "guarded s0" by (simp add: guarded_def)
  then have g: "guarded (run_events cfg s0 evs)" by (rule guarded_run)
  from g have "in_flight (run_events cfg s0 evs) \<le> 1" by (rule guarded_in_flight)
  moreover from g have "length (awaiting (run_events cfg s0 evs)) \<le> 1"
    and "awaiting (run_events cfg s0 evs) \<noteq> [] \<longrightarrow> pollInProgress (run_events cfg s0 evs)"
    by (auto simp: guarded_def)
  moreover have "pollInProgress s \<and> \<not> exited s \<and> i < length (timers s) \<longrightarrow>
          step cfg s (TimerFires i now sl now') = s\<lparr>timers := remove_nth i (timers s)\<rparr>"
    by (simp add: skipped_tick)
  moreover have "guarded s \<longrightarrow> in_flight (run_events cfg s evs') \<le> 1"
    using guarded_in_flight [OF guarded_run] by blast
  ultimately show ?thesis by blast
qed

theorem single_fetch_in_flight_witness:
  "startDualPriceMonitor fixed_ticker_options ''2026-01-01_00-00'' (Inr [])
     = Inr (fixed_ticker_config, fresh_scheduler)
   \<and> in_flight (run_events fixed_ticker_config fresh_scheduler
        [TimerFires 0 1000 ''2026-01-01_00-00'' 1000]) = 1
   \<and> pollInProgress (run_events fixed_ticker_config fresh_scheduler
        [TimerFires 0 1000 ''2026-01-01_00-00'' 1000])
   \<and> guarded busy_scheduler \<and> pollInProgress busy_scheduler \<and> timers busy_scheduler = [7]
   \<and> step fixed_ticker_config busy_scheduler (TimerFires 0 1200 ''2026-01-01_00-00'' 1200)
      = busy_scheduler\<lparr>timers := []\<rparr>
   \<and> in_flight (run_events fixed_ticker_config busy_scheduler
        [TimerFires 0 1200 ''2026-01-01_00-00'' 1200]) = 1"
proof -
  have start: "startDualPriceMonitor fixed_ticker_options ''2026-01-01_00-00'' (Inr [])
     = Inr (fixed_ticker_config, fresh_scheduler)"
    by (simp add: poll_eval)
  have busy: "pollInProgress busy_scheduler \<and> \<not> exited busy_scheduler
      \<and> 0 < length (timers busy_scheduler)"
    and g: "guarded busy_scheduler" and t: "timers busy_scheduler = [7]"
    by (simp_all add: busy_scheduler_def fresh_scheduler_def guarded_def)
  note W = single_fetch_in_flight [OF start, of "[TimerFires 0 1000 ''2026-01-01_00-00'' 1000]"
      busy_scheduler 0 1200 "''2026-01-01_00-00''" 1200
      "[TimerFires 0 1200 ''2026-01-01_00-00'' 1200]"]
  have one: "in_flight (run_events fixed_ticker_config fresh_scheduler
        [TimerFires 0 1000 ''2026-01-01_00-00'' 1000]) = 1"
    and one': "in_flight (run_events fixed_ticker_config busy_scheduler
        [TimerFires 0 1200 ''2026-01-01_00-00'' 1200]) = 1"
    by (simp_all add: poll_eval)
  have flag: "awaiting (run_events fixed_ticker_config fresh_scheduler
        [TimerFires 0 1000 ''2026-01-01_00-00'' 1000]) \<noteq> []"
    by (simp add: poll_eval)
  from W busy have "step fixed_ticker_config busy_scheduler
        (TimerFires 0 1200 ''2026-01-01_00-00'' 1200)
      = busy_scheduler\<lparr>timers := remove_nth 0 (timers busy_scheduler)\<rparr>"
    by blast
  then have skip: "step fixed_ticker_config busy_scheduler
        (TimerFires 0 1200 ''2026-01-01_00-00'' 1200) = busy_scheduler\<lparr>timers := []\<rparr>"
    by (simp add: t remove_nth_def)
  from W flag have "pollInProgress (run_events fixed_ticker_config fresh_scheduler
        [TimerFires 0 1000 ''2026-01-01_00-00'' 1000])"
    by blast
  with start one one' g busy t skip show ?thesis by simp
qed



section \<open>The token cache\<close>

lemma cache_hit:
  "cache = Some c \<Longrightarrow> cached_slug c = sl \<Longrightarrow>
   getTokenIdsForSlugCached cache sl reply
     = (cache, [], Inr \<lparr>upTokenId = upTokenId c, downTokenId = downTokenId c\<rparr>)"
  by (simp add: getTokenIdsForSlugCached_def)

lemma cache_miss_ok:
  "cache = None \<or> (\<exists>c. cache = Some c \<and> cached_slug c \<noteq> sl) \<Longrightarrow>
   fetchTokenIdsForSlug sl reply = Inr fresh \<Longrightarrow>
   getTokenIdsForSlugCached cache sl reply
     = (Some \<lparr>upTokenId = upTokenId fresh, downTokenId = downTokenId fresh, cached_slug = sl\<rparr>,
        [Gamma_fetch sl],
        Inr \<lparr>upTokenId = upTokenId fresh, downTokenId = downTokenId fresh\<rparr>)"
  by (auto simp: getTokenIdsForSlugCached_def)

lemma cache_miss_error:
  "cache = None \<or> (\<exists>c. cache = Some c \<and> cached_slug c \<noteq> sl) \<Longrightarrow>
   fetchTokenIdsForSlug sl reply = Inl e \<Longrightarrow>
   getTokenIdsForSlugCached cache sl reply = (cache, [Gamma_fetch sl], Inl e)"
  by (auto simp: getTokenIdsForSlugCached_def)


lemmas monitor_eval = getTokenIdsForSlugCached_def fetchTokenIdsForSlug_def parseJsonArray_def
  at_index_def getBestAskForToken_def best_ask_step_def polymarket_try_def
  getPolymarketAskPrices_def
  market_try_def getMarketApi_def getMarketPrices_def getDualPrices_def dollarsToCents_def
  nullish_def
  cached_entry_def book_def polymarket_up_def polymarket_unreachable_def kalshi_quotes_def
  kalshi_no_asks_def gamma_up_down_def

text \<open>C7: on a hit (the cache holds an entry for the same slug) the cached identifiers
  are returned and no resolution call is made, whatever the Gamma API would answer. On
  a miss exactly one resolution call is made; when it succeeds its result takes the place
  of the previous entry, when it fails the error goes to the caller and the cache is as
  before.\<close>

theorem token_cache:
  "(cache = Some c \<and> cached_slug c = sl \<longrightarrow>
      getTokenIdsForSlugCached cache sl reply
        = (cache, [], Inr \<lparr>upTokenId = upTokenId c, downTokenId = downTokenId c\<rparr>))
   \<and> ((cache = None \<or> (\<exists>c. cache = Some c \<and> cached_slug c \<noteq> sl)) \<longrightarrow>
        (fetchTokenIdsForSlug sl reply = Inr fresh \<longrightarrow>
           getTokenIdsForSlugCached cache sl reply
             = (Some \<lparr>upTokenId = upTokenId fresh, downTokenId = downTokenId fresh,
                      cached_slug = sl\<rparr>,
                [Gamma_fetch sl],
                Inr \<lparr>upTokenId = upTokenId fresh, downTokenId = downTokenId fresh\<rparr>))
        \<and> (fetchTokenIdsForSlug sl reply = Inl e \<longrightarrow>
             getTokenIdsForSlugCached cache sl reply = (cache, [Gamma_fetch sl], Inl e)))"
  by (simp add: cache_hit cache_miss_ok cache_miss_error)

theorem token_cache_witness:
  "getTokenIdsForSlugCached (Some cached_entry) ''btc-updown-15m-0'' (FetchRejects ''offline'')
     = (Some cached_entry, [], Inr \<lparr>upTokenId = ''token-up'', downTokenId = ''token-down''\<rparr>)
   \<and> getTokenIdsForSlugCached (Some cached_entry) ''btc-updown-15m-900''
        (HttpOk \<lparr>outcomes = RawArray [''Down'', ''Up''],
                 clobTokenIds = RawArray [''d-900'', ''u-900''], conditionId = None\<rparr>)
     = (Some \<lparr>upTokenId = ''u-900'', downTokenId = ''d-900'',
              cached_slug = ''btc-updown-15m-900''\<rparr>,
        [Gamma_fetch ''btc-updown-15m-900''],
        Inr \<lparr>upTokenId = ''u-900'', downTokenId = ''d-900''\<rparr>)
   \<and> getTokenIdsForSlugCached (Some cached_entry) ''btc-updown-15m-900'' HttpNotOk
     = (Some cached_entry, [Gamma_fetch ''btc-updown-15m-900''], Inl GammaApiNotOk)
   \<and> getTokenIdsForSlugCached None ''btc-updown-15m-900'' HttpNotOk
     = (None, [Gamma_fetch ''btc-updown-15m-900''], Inl GammaApiNotOk)"
proof -
  let ?new = "HttpOk \<lparr>outcomes = RawArray [''Down'', ''Up''],
                 clobTokenIds = RawArray [''d-900'', ''u-900''], conditionId = None\<rparr>"
  have hit: "Some cached_entry = Some cached_entry \<and> cached_slug cached_entry = ''btc-updown-15m-0''"
    by (simp add: cached_entry_def)
  have miss: "Some cached_entry = None
      \<or> (\<exists>c. Some cached_entry = Some c \<and> cached_slug c \<noteq> ''btc-updown-15m-900'')"
    by (simp add: cached_entry_def)
  have empty: "(None :: cache_entry option) = None
      \<or> (\<exists>c. (None :: cache_entry option) = Some c \<and> cached_slug c \<noteq> ''btc-updown-15m-900'')"
    by simp
  have ok: "fetchTokenIdsForSlug ''btc-updown-15m-900'' ?new
      = Inr \<lparr>upTokenId = ''u-900'', downTokenId = ''d-900'', resolved_conditionId = []\<rparr>"
    by (simp add: fetchTokenIdsForSlug_def parseJsonArray_def at_index_def)
  have bad: "fetchTokenIdsForSlug ''btc-updown-15m-900'' HttpNotOk = Inl GammaApiNotOk"
    by (simp add: fetchTokenIdsForSlug_def)
  from token_cache [of "Some cached_entry" cached_entry "''btc-updown-15m-0''"
      "FetchRejects ''offline''"] hit
  have a: "getTokenIdsForSlugCached (Some cached_entry) ''btc-updown-15m-0''
      (FetchRejects ''offline'')
     = (Some cached_entry, [], Inr \<lparr>upTokenId = ''token-up'', downTokenId = ''token-down''\<rparr>)"
    by (simp add: cached_entry_def)
  from token_cache [of "Some cached_entry" cached_entry "''btc-updown-15m-900''" ?new
      "\<lparr>upTokenId = ''u-900'', downTokenId = ''d-900'', resolved_conditionId = []\<rparr>"] miss ok
  have b: "getTokenIdsForSlugCached (Some cached_entry) ''btc-updown-15m-900'' ?new
     = (Some \<lparr>upTokenId = ''u-900'', downTokenId = ''d-900'',
              cached_slug = ''btc-updown-15m-900''\<rparr>,
        [Gamma_fetch ''btc-updown-15m-900''],
        Inr \<lparr>upTokenId = ''u-900'', downTokenId = ''d-900''\<rparr>)"
    by simp
  from token_cache [of "Some cached_entry" cached_entry "''btc-updown-15m-900''" HttpNotOk
      _ GammaApiNotOk] miss bad
  have c: "getTokenIdsForSlugCached (Some cached_entry) ''btc-updown-15m-900'' HttpNotOk
     = (Some cached_entry, [Gamma_fetch ''btc-updown-15m-900''], Inl GammaApiNotOk)"
    by blast
  from token_cache [of None cached_entry "''btc-updown-15m-900''" HttpNotOk
      _ GammaApiNotOk] empty bad
  have d: "getTokenIdsForSlugCached None ''btc-updown-15m-900'' HttpNotOk
     = (None, [Gamma_fetch ''btc-updown-15m-900''], Inl GammaApiNotOk)"
    by blast
  from a b c d show ?thesis by simp
qed

section \<open>The dual price fetch\<close>

lemma getMarketPrices_available:
  "cachedMarketApi \<or> construction = None \<Longrightarrow>
   getMarketPrices cachedMarketApi construction now reply
     = (True, Inr (case market_try now reply of Inl e \<Rightarrow> None | Inr r \<Rightarrow> r))"
  by (auto simp: getMarketPrices_def getMarketApi_def split: sum.splits)








lemma parseFloat_book_facts:
  "parseFloat ''0.4000'' = parseFloat ''0.4''"
  "parseFloat ''0.5500'' = Finite (2476979795053773 / 4503599627370496)"
  by (simp_all add: parse_eval fl_eval)

text \<open>
  The slug of the slot. In a time zone whose offset is fixed and a multiple of a quarter
  of an hour, the slot starts at the last multiple of 900 seconds before the clock
  reading.
\<close>

lemma split_unit: "(x div n) * (n * u) + (x mod n) * u = x * (u::int)"
proof -
  have "x * u = (x div n * n + x mod n) * u"
    by simp
  also have "\<dots> = (x div n) * (n * u) + (x mod n) * u"
    by (simp only: distrib_right mult.assoc)
  finally show ?thesis by simp
qed

lemma hours_of_day: "Day l * 86400000 + HourFromTime l * 3600000 = l div 3600000 * 3600000"
proof -
  have "l div 86400000 = (l div 3600000) div 24"
    by (simp add: zdiv_zmult2_eq [symmetric])
  then show ?thesis
    unfolding Day_def HourFromTime_def using split_unit [of "l div 3600000" 24 3600000] by simp
qed

lemma minutes_of_hour:
  "l div 3600000 * 3600000 + MinFromTime l * 60000 = l div 60000 * 60000"
proof -
  have "l div 3600000 = (l div 60000) div 60"
    by (simp add: zdiv_zmult2_eq [symmetric])
  then show ?thesis
    unfolding MinFromTime_def using split_unit [of "l div 60000" 60 60000] by simp
qed

lemma seconds_of_minute:
  "l div 60000 * 60000 + SecFromTime l * 1000 = l div 1000 * 1000"
proof -
  have "l div 60000 = (l div 1000) div 60"
    by (simp add: zdiv_zmult2_eq [symmetric])
  then show ?thesis
    unfolding SecFromTime_def using split_unit [of "l div 1000" 60 1000] by simp
qed

lemma quarter_of_hour:
  "l div 3600000 * 3600000 + MinFromTime l div 15 * 15 * 60000 = l div 900000 * 900000"
proof -
  define q where "q = l div 60000"
  have "l div 3600000 = q div 60" "l div 900000 = q div 15"
    by (simp_all add: q_def zdiv_zmult2_eq [symmetric])
  moreover have "q div 60 * 60 + q mod 60 div 15 * 15 = q div 15 * 15"
  proof -
    have a: "q div 60 = q div 15 div 4"
      by (simp add: zdiv_zmult2_eq [symmetric])
    have "q mod 60 = 15 * (q div 15 mod 4) + q mod 15"
      using zmod_zmult2_eq [of 4 q 15] by simp
    then have b: "q mod 60 div 15 = q div 15 mod 4"
      by simp
    show ?thesis
      unfolding a b using split_unit [of "q div 15" 4 15] by simp
  qed
  then have "(q div 60 * 60 + q mod 60 div 15 * 15) * 60000 = q div 15 * 15 * 60000"
    by (simp only:)
  ultimately show ?thesis
    unfolding MinFromTime_def q_def [symmetric] by (simp add: algebra_simps)
qed

lemma slot_start_fixed_offset:
  assumes "offset_at tz = (\<lambda>t. k * 900000)" and "offset_of_local tz = (\<lambda>t. k * 900000)"
  shows "slot_start tz now = now div 900000 * 900000"
proof -
  define l where "l = now + k * 900000"
  define l' where "l' = l div 60000 * 60000"
  have local: "\<And>t. LocalTime tz (t - k * 900000) = t" "LocalTime tz now = l"
    by (simp_all add: LocalTime_def assms l_def)
  have utc: "\<And>t. UTC tz t = t - k * 900000"
    by (simp add: UTC_def assms)
  have s1: "setSeconds tz 0 0 now = l' - k * 900000"
    using hours_of_day [of l] minutes_of_hour [of l]
    by (simp add: setSeconds_def utc local MakeDate_def MakeTime_def l'_def)
  have d: "l' div 60000 = l div 60000" "l' div 1000 * 1000 = l'"
    by (simp_all add: l'_def)
  have s2: "whole_second tz now = l' - k * 900000"
    using hours_of_day [of l'] minutes_of_hour [of l'] seconds_of_minute [of l'] d
    by (simp add: whole_second_def s1 setMilliseconds_def utc local MakeDate_def MakeTime_def)
  have "l' div 3600000 = (l' div 60000) div 60" "l div 3600000 = (l div 60000) div 60"
    by (simp_all add: zdiv_zmult2_eq [symmetric])
  with d have m: "MinFromTime l' = MinFromTime l" "l' div 3600000 = l div 3600000"
    by (simp_all add: MinFromTime_def)
  have k: "l div 900000 = now div 900000 + k"
    by (simp add: l_def)
  have "slot_start tz now
      = Day l' * 86400000 + HourFromTime l' * 3600000 + MinFromTime l' div 15 * 15 * 60000
        - k * 900000"
    by (simp add: slot_start_def s2 setMinutes_def getMinutes_def utc local MakeDate_def
        MakeTime_def)
  also have "\<dots> = l div 3600000 * 3600000 + MinFromTime l div 15 * 15 * 60000 - k * 900000"
    by (simp only: hours_of_day m)
  also have "\<dots> = (now div 900000 + k) * 900000 - k * 900000"
    by (simp only: quarter_of_hour k)
  also have "\<dots> = now div 900000 * 900000"
    by (simp add: distrib_right)
  finally show ?thesis .
qed

lemma slug_fixed_offset:
  assumes "offset_at tz = (\<lambda>t. k * 900000)" and "offset_of_local tz = (\<lambda>t. k * 900000)"
  shows "slugForCurrent15m tz market now
     = market @ ''-updown-15m-'' @ show_int (now div 900000 * 900)"
proof -
  have "now div 900000 * 900000 = now div 900000 * 900 * 1000" by simp
  then have "now div 900000 * 900000 div 1000 = now div 900000 * 900" by simp
  then show ?thesis
    unfolding slugForCurrent15m_def slot_start_fixed_offset [OF assms] by (simp only:)
qed








section \<open>Missing Kalshi asks\<close>

lemma dollarsToCents_not_finite:
  "\<not> isFinite (parseFloat d) \<Longrightarrow> dollarsToCents (Some d) = Finite 0"
  by (simp add: dollarsToCents_def)

text \<open>A text that does not start like a number has no numeric prefix.\<close>

lemma parseFloat_not_numeric:
  assumes "d \<noteq> []" and "\<not> isWhiteSpace (hd d)" and "\<not> isDigit (hd d)"
    and "hd d \<notin> {CHR ''+'', CHR ''-'', CHR ''.'', CHR ''I''}"
  shows "parseFloat d = NaN"
proof -
  from assms(1) obtain c r where d: "d = c # r" by (cases d) auto
  with assms have c: "\<not> isWhiteSpace c" "\<not> isDigit c" "c \<noteq> CHR ''+''" "c \<noteq> CHR ''-''"
    "c \<noteq> CHR ''.''" "c \<noteq> CHR ''I''"
    by auto
  from c(6) have "take 8 (c # r) \<noteq> ''Infinity''"
    by (cases "take 8 (c # r)") (auto simp: take_Cons')
  with c have "parse_unsigned (c # r) = None"
    by (simp add: parse_unsigned_def fraction_part_def)
  with c d show ?thesis
    by (simp add: parseFloat_def)
qed

text \<open>
  Leading white space, the no-break space included, is skipped, and what follows a
  numeric prefix is ignored: such texts are parsed, not turned into 0.
\<close>

lemma parseFloat_skips_white_space:
  "isWhiteSpace c \<Longrightarrow> parseFloat (c # s) = parseFloat s"
  by (simp add: parseFloat_def)

lemma eval_dollarsToCents:
  "parseFloat (CHR 0xA0 # ''0.56'') = parseFloat ''0.56''"
  "dollarsToCents (Some (CHR 0xA0 # ''0.56'')) = Finite 56"
  "dollarsToCents (Some ''  0.5600'') = Finite 56"
  "dollarsToCents (Some ''0.56 USD'') = Finite 56"
  "dollarsToCents (Some ''$0.56'') = Finite 0"
  by (simp_all add: dollarsToCents_def parse_eval num_eval fl_eval isFinite_def)

lemma kUp_zero: "upAskCents k = Finite 0 \<Longrightarrow> kUp k = Finite 0"
  by (simp add: kUp_def js_div_def fl_def)

lemma zero_ask_leg1:
  assumes "kalshi p = Some k" and "polymarket p = Some pm" and "upAskCents k = Finite 0"
    and "kalshiTicker p \<notin> upArbDoneTickers (arb s)"
  shows "sumUp k pm = js_add (Finite 0) (downAsk pm)"
    and "kalshiTicker p \<in> upArbDoneTickers (arb (fst (checkArbAndPlaceOrders cfg env s p)))
           \<longleftrightarrow> inRange cfg (js_add (Finite 0) (downAsk pm))"
  using assms
  by (simp_all add: sumUp_def kUp_zero checkArb_state arb_decide_up_iff)

lemma zero_sum_below_low:
  assumes "fl x = Finite x" and "js_lt (Finite x) (ARB_SUM_LOW cfg)"
  shows "\<not> inRange cfg (js_add (Finite 0) (Finite x))"
  using assms by (simp add: inRange_def js_ge_def)

text \<open>A market without usable asks, while Polymarket quotes 0.80 on both sides.\<close>

lemma eval_no_asks:
  "snd (getMarketPrices True None 90 (GetMarketData (Some kalshi_no_asks)))
     = Inr (Some \<lparr>ticker = ''KXBTC15M-1'', upAskCents = Finite 0, downAskCents = Finite 0,
                  lastPriceCents = Finite 0, k_fetchedAt = 90\<rparr>)"
  by (simp add: monitor_eval parse_eval isFinite_def)

lemma eval_zero_ask_fires:
  "checkArbAndPlaceOrders live_config orders_accepted initial_process
     \<lparr>kalshiTicker = ''KXBTC15M-1'',
      kalshi = Some \<lparr>ticker = ''KXBTC15M-1'', upAskCents = Finite 0, downAskCents = Finite 0,
                     lastPriceCents = Finite 0, k_fetchedAt = 90\<rparr>,
      polymarket = Some (polymarket_prices ''0.8'' ''0.8''), fetchedAt = 0\<rparr>
   = (\<lparr>arb = \<lparr>upArbDoneTickers = {''KXBTC15M-1''}, downArbDoneTickers = {}\<rparr>,
       tokenIdsCache = Some cached_entry\<rparr>,
      [Console (ArbOpportunity Yes (parseFloat ''0.8'') (Finite 0) (parseFloat ''0.8'') False
                  (Finite 1) (parseFloat ''0.81'')),
       MonitorLog (ArbOpportunity Yes (parseFloat ''0.8'') (Finite 0) (parseFloat ''0.8'') False
                  (Finite 1) (parseFloat ''0.81'')),
       Kalshi_createOrder ''KXBTC15M-1'' Yes (Finite 3) (Finite 1),
       Console (OrderPlaced ''k-1'' ''KXBTC15M-1'' Yes (Finite 3) (Finite 1)),
       MonitorLog (OrderPlaced ''k-1'' ''KXBTC15M-1'' Yes (Finite 3) (Finite 1)),
       Gamma_fetch ''btc-updown-15m-0'',
       Clob_createAndPostOrder ''token-down'' (parseFloat ''0.81'') (Finite 3) ''0.01'' False,
       Console (PolymarketOrderPlaced ''p-1'' ''token-down'' (parseFloat ''0.81'') (Finite 3)),
       MonitorLog (PolymarketOrderPlaced ''p-1'' ''token-down'' (parseFloat ''0.81'') (Finite 3))],
      None)"
  by (simp add: arb_eval ex_eval num_eval parseFloat_facts fl_eval cached_entry_def)

text \<open>C10: \<open>dollarsToCents\<close> gives 0 for a missing, an empty and an unparseable text
  (one \<open>parseFloat\<close> turns into \<open>NaN\<close> or an infinity, such as any text that does not
  start like a number). When the market object that the Kalshi client received has no
  ask in cents and no usable ask in dollars, \<open>getMarketPrices\<close> still returns a
  snapshot, with that ask at 0 cents. Such a
  snapshot passes the guard for absent venues: the zero enters the sum, and leg 1 of a
  market that has not fired fires exactly when the sum, which is then the Polymarket ask
  alone, lies in the band; it is kept from firing when that ask is below
  \<open>ARB_SUM_LOW\<close>.\<close>

theorem missing_ask_is_zero:
  "dollarsToCents None = Finite 0
   \<and> dollarsToCents (Some []) = Finite 0
   \<and> (\<not> isFinite (parseFloat d) \<longrightarrow> dollarsToCents (Some d) = Finite 0)
   \<and> (d \<noteq> [] \<and> \<not> isWhiteSpace (hd d) \<and> \<not> isDigit (hd d)
        \<and> hd d \<notin> {CHR ''+'', CHR ''-'', CHR ''.'', CHR ''I''}
       \<longrightarrow> parseFloat d = NaN \<and> dollarsToCents (Some d) = Finite 0)
   \<and> (yes_ask m = None \<and> dollarsToCents (yes_ask_dollars m) = Finite 0
        \<and> (cachedMarketApi \<or> construction = None) \<longrightarrow>
        (\<exists>mp. snd (getMarketPrices cachedMarketApi construction now (GetMarketData (Some m)))
                 = Inr (Some mp)
               \<and> upAskCents mp = Finite 0))
   \<and> (no_ask m = None \<and> dollarsToCents (no_ask_dollars m) = Finite 0
        \<and> (cachedMarketApi \<or> construction = None) \<longrightarrow>
        (\<exists>mp. snd (getMarketPrices cachedMarketApi construction now (GetMarketData (Some m)))
                 = Inr (Some mp)
               \<and> downAskCents mp = Finite 0))
   \<and> (kalshi p = Some k \<and> polymarket p = Some pm \<and> upAskCents k = Finite 0
        \<and> kalshiTicker p \<notin> upArbDoneTickers (arb s) \<longrightarrow>
        sumUp k pm = js_add (Finite 0) (downAsk pm)
        \<and> (kalshiTicker p \<in> upArbDoneTickers (arb (fst (checkArbAndPlaceOrders cfg env s p)))
             \<longleftrightarrow> inRange cfg (js_add (Finite 0) (downAsk pm)))
        \<and> (downAsk pm = Finite x \<and> fl x = Finite x \<and> js_lt (Finite x) (ARB_SUM_LOW cfg) \<longrightarrow>
             kalshiTicker p \<notin> upArbDoneTickers (arb (fst (checkArbAndPlaceOrders cfg env s p)))))"
proof (intro conjI impI)
  show "dollarsToCents None = Finite 0" and "dollarsToCents (Some []) = Finite 0"
    by (simp_all add: dollarsToCents_def)
  show "dollarsToCents (Some d) = Finite 0" if "\<not> isFinite (parseFloat d)"
    using that by (rule dollarsToCents_not_finite)
  show "parseFloat d = NaN" and "dollarsToCents (Some d) = Finite 0"
    if "d \<noteq> [] \<and> \<not> isWhiteSpace (hd d) \<and> \<not> isDigit (hd d)
        \<and> hd d \<notin> {CHR ''+'', CHR ''-'', CHR ''.'', CHR ''I''}"
  proof -
    from that show nan: "parseFloat d = NaN" by (intro parseFloat_not_numeric) simp_all
    then show "dollarsToCents (Some d) = Finite 0"
      by (simp add: dollarsToCents_not_finite isFinite_def)
  qed
  show "\<exists>mp. snd (getMarketPrices cachedMarketApi construction now (GetMarketData (Some m)))
                 = Inr (Some mp)
               \<and> upAskCents mp = Finite 0"
    if "yes_ask m = None \<and> dollarsToCents (yes_ask_dollars m) = Finite 0
        \<and> (cachedMarketApi \<or> construction = None)"
    using that by (simp add: getMarketPrices_available market_try_def nullish_def)
  show "\<exists>mp. snd (getMarketPrices cachedMarketApi construction now (GetMarketData (Some m)))
                 = Inr (Some mp)
               \<and> downAskCents mp = Finite 0"
    if "no_ask m = None \<and> dollarsToCents (no_ask_dollars m) = Finite 0
        \<and> (cachedMarketApi \<or> construction = None)"
    using that by (simp add: getMarketPrices_available market_try_def nullish_def)
  assume z: "kalshi p = Some k \<and> polymarket p = Some pm \<and> upAskCents k = Finite 0
        \<and> kalshiTicker p \<notin> upArbDoneTickers (arb s)"
  then show sum: "sumUp k pm = js_add (Finite 0) (downAsk pm)"
    using zero_ask_leg1(1) [of p k pm s] by blast
  from z show iff: "kalshiTicker p \<in> upArbDoneTickers (arb (fst (checkArbAndPlaceOrders cfg env s p)))
             \<longleftrightarrow> inRange cfg (js_add (Finite 0) (downAsk pm))"
    using zero_ask_leg1(2) [of p k pm s cfg env] by blast
  show "kalshiTicker p \<notin> upArbDoneTickers (arb (fst (checkArbAndPlaceOrders cfg env s p)))"
    if "downAsk pm = Finite x \<and> fl x = Finite x \<and> js_lt (Finite x) (ARB_SUM_LOW cfg)"
    using that iff zero_sum_below_low [of x cfg] by simp
qed

theorem missing_ask_is_zero_witness:
  "dollarsToCents (Some ''n/a'') = Finite 0
   \<and> snd (getMarketPrices True None 90 (GetMarketData (Some kalshi_no_asks)))
       = Inr (Some \<lparr>ticker = ''KXBTC15M-1'', upAskCents = Finite 0, downAskCents = Finite 0,
                    lastPriceCents = Finite 0, k_fetchedAt = 90\<rparr>)
   \<and> ''KXBTC15M-1'' \<in> upArbDoneTickers (arb (fst (checkArbAndPlaceOrders live_config
        orders_accepted initial_process
        \<lparr>kalshiTicker = ''KXBTC15M-1'',
         kalshi = Some \<lparr>ticker = ''KXBTC15M-1'', upAskCents = Finite 0, downAskCents = Finite 0,
                        lastPriceCents = Finite 0, k_fetchedAt = 90\<rparr>,
         polymarket = Some (polymarket_prices ''0.8'' ''0.8''), fetchedAt = 0\<rparr>)))
   \<and> inRange live_config (js_add (Finite 0) (parseFloat ''0.8''))
   \<and> ''KXBTC15M-1'' \<notin> upArbDoneTickers (arb (fst (checkArbAndPlaceOrders live_config
        orders_accepted initial_process
        \<lparr>kalshiTicker = ''KXBTC15M-1'',
         kalshi = Some \<lparr>ticker = ''KXBTC15M-1'', upAskCents = Finite 0, downAskCents = Finite 0,
                        lastPriceCents = Finite 0, k_fetchedAt = 90\<rparr>,
         polymarket = Some (polymarket_prices ''0.48'' ''0.48''), fetchedAt = 0\<rparr>)))"
proof -
  let ?k = "\<lparr>ticker = ''KXBTC15M-1'', upAskCents = Finite 0, downAskCents = Finite 0,
             lastPriceCents = Finite 0, k_fetchedAt = 90\<rparr>"
  let ?p = "\<lambda>a. \<lparr>kalshiTicker = ''KXBTC15M-1'', kalshi = Some ?k,
                 polymarket = Some (polymarket_prices a a), fetchedAt = 0\<rparr>"
  have nonnum: "''n/a'' \<noteq> [] \<and> \<not> isWhiteSpace (hd ''n/a'') \<and> \<not> isDigit (hd ''n/a'')
        \<and> hd ''n/a'' \<notin> {CHR ''+'', CHR ''-'', CHR ''.'', CHR ''I''}"
    by (simp add: isWhiteSpace_def isDigit_def)
  have asks: "yes_ask kalshi_no_asks = None
        \<and> dollarsToCents (yes_ask_dollars kalshi_no_asks) = Finite 0"
    by (simp add: kalshi_no_asks_def dollarsToCents_def)
  have pre: "\<And>a. kalshi (?p a) = Some ?k \<and> polymarket (?p a) = Some (polymarket_prices a a)
        \<and> upAskCents ?k = Finite 0
        \<and> kalshiTicker (?p a) \<notin> upArbDoneTickers (arb initial_process)"
    by (simp add: initial_process_def initial_arb_state_def)
  have low: "downAsk (polymarket_prices ''0.48'' ''0.48'')
               = Finite (1080863910568919 / 2251799813685248)
      \<and> fl (1080863910568919 / 2251799813685248) = Finite (1080863910568919 / 2251799813685248)
      \<and> js_lt (Finite (1080863910568919 / 2251799813685248)) (ARB_SUM_LOW live_config)"
    by (simp add: polymarket_prices_def parseFloat_facts live_config_thresholds fl_eval)
  note in_band = missing_ask_is_zero [of "''n/a''" kalshi_no_asks True None 90 "?p ''0.8''" ?k
      "polymarket_prices ''0.8'' ''0.8''" initial_process live_config orders_accepted
      "1080863910568919 / 2251799813685248"]
  note below = missing_ask_is_zero [of "''n/a''" kalshi_no_asks True None 90 "?p ''0.48''" ?k
      "polymarket_prices ''0.48'' ''0.48''" initial_process live_config orders_accepted
      "1080863910568919 / 2251799813685248"]
  from in_band nonnum have a: "dollarsToCents (Some ''n/a'') = Finite 0"
    by blast
  have b: "snd (getMarketPrices True None 90 (GetMarketData (Some kalshi_no_asks)))
      = Inr (Some ?k)"
    by (rule eval_no_asks)
  have band: "inRange live_config (js_add (Finite 0) (parseFloat ''0.8''))"
    by (simp add: inRange_def ex_eval num_eval parseFloat_facts fl_eval)
  have band': "inRange live_config
      (js_add (Finite 0) (downAsk (polymarket_prices ''0.8'' ''0.8'')))"
    using band by (simp add: polymarket_prices_def)
  from in_band pre [of "''0.8''"] band'
  have "kalshiTicker (?p ''0.8'') \<in> upArbDoneTickers (arb (fst (checkArbAndPlaceOrders
        live_config orders_accepted initial_process (?p ''0.8''))))"
    by blast
  then have c: "''KXBTC15M-1'' \<in> upArbDoneTickers (arb (fst (checkArbAndPlaceOrders live_config
        orders_accepted initial_process (?p ''0.8''))))"
    by simp
  from below pre [of "''0.48''"] low
  have "kalshiTicker (?p ''0.48'') \<notin> upArbDoneTickers (arb (fst (checkArbAndPlaceOrders
        live_config orders_accepted initial_process (?p ''0.48''))))"
    by blast
  then have d: "''KXBTC15M-1'' \<notin> upArbDoneTickers (arb (fst (checkArbAndPlaceOrders live_config
        orders_accepted initial_process (?p ''0.48''))))"
    by simp
  from a b c d band show ?thesis by simp
qed

end
